theory Spec2Isabelle
  imports Main "HOL-Library.AList"
begin

section \<open>The install protocol of the state-channel runtime\<close>

text \<open>
  The development embeds the install protocol (\<^verbatim>\<open>INSTALL_PROTOCOL\<close> and
  \<^verbatim>\<open>computeInstallStateChannelTransition\<close>) as HOL functions. Addresses, identifiers,
  asset ids, hashes and signatures are JavaScript strings; a \<^verbatim>\<open>BigNumber\<close> is an
  unbounded integer.
\<close>

type_synonym address = string
type_synonym public_identifier = string
type_synonym asset_id = string
type_synonym bytes32 = string
type_synonym signature = string

subsection \<open>Errors\<close>

text \<open>
  Every \<^verbatim>\<open>throw\<close> of the source is a value. \<open>Error msg\<close> is \<^verbatim>\<open>new Error(msg)\<close>;
  \<open>TypeError\<close> is what destructuring an undefined \<^verbatim>\<open>params\<close> raises. The three
  structured errors are the ones the specification names for the helpers that
  live outside the protocol file. \<open>HostFailure\<close> is a request that the host
  answers by failing or by cancelling the run.
\<close>

datatype error =
    Error string
  | TypeError
  | InsufficientFunds public_identifier address int int
  | InvalidCounterpartySignature
  | AppNotProposed
  | HostFailure string

subsection \<open>Data model\<close>

text \<open>
  A \<^verbatim>\<open>TokenIndexedCoinTransferMap\<close> is a two-level JavaScript object
  \<^verbatim>\<open>{tokenAddress: {address: amount}}\<close>: an association list in insertion order.
\<close>

type_synonym CoinTransferMap = "(address \<times> int) list"
type_synonym TokenIndexedCoinTransferMap = "(address \<times> CoinTransferMap) list"

text \<open>
  An object literal with computed keys \<^verbatim>\<open>{[k1]: v1, [k2]: v2}\<close> defines its properties
  from left to right; a key that occurs twice keeps its first position and its
  last value.
\<close>

definition object_literal :: "(string \<times> 'v) list \<Rightarrow> (string \<times> 'v) list" where
  "object_literal kvs = foldl (\<lambda>obj kv. AList.update (fst kv) (snd kv) obj) [] kvs"

text \<open>The fields of \<^verbatim>\<open>AppInstance\<close> that the install protocol reads.\<close>

record AppInstance =
  identityHash :: string
  initiatorIdentifier :: public_identifier
  responderIdentifier :: public_identifier
  initiatorDeposit :: int
  responderDeposit :: int
  initiatorDepositAssetId :: asset_id
  responderDepositAssetId :: asset_id

text \<open>
  Modelled from the spec: the free balance class is not among the sources. Section 3
  makes it a distinguished app instance whose state gives, per token address, the
  spendable amount of each channel owner, with a version number. \<open>balances fb t a\<close> is
  the amount address \<open>a\<close> can spend in token \<open>t\<close>; an entry that is absent holds
  nothing.
\<close>

record FreeBalance =
  balances :: "address \<Rightarrow> address \<Rightarrow> int"
  latestVersionNumber :: nat

text \<open>
  Modelled from the spec: the \<^verbatim>\<open>StateChannel\<close> class is not among the sources. Section 3
  gives its attributes; \<^verbatim>\<open>multisigOwners\<close> is an ordered pair of signer addresses, so
  \<^verbatim>\<open>multisigOwners[0]\<close> is \<open>fst\<close> and \<^verbatim>\<open>multisigOwners[1]\<close> is \<open>snd\<close>.
\<close>

record StateChannel =
  multisigAddress :: address
  multisigOwners :: "address \<times> address"
  freeBalance :: FreeBalance
  appInstances :: "string \<rightharpoonup> AppInstance"
  proposedAppInstances :: "string \<rightharpoonup> AppInstance"
  monotonicNumProposedApps :: nat

subsection \<open>Functions imported by the protocol file\<close>

text \<open>
  The protocol file imports its helpers from packages that are not among the
  sources. They are parameters of the model: every theorem that does not name
  a model of one of them holds whatever they compute. \<open>'c\<close> is the type of
  set-state commitments, \<open>'n\<close> the type of the network context that
  \<^verbatim>\<open>getSetStateCommitment\<close> reads from the protocol context. \<^verbatim>\<open>hashToSign\<close> and
  \<^verbatim>\<open>addSignatures\<close> are methods of the commitment; \<^verbatim>\<open>addSignatures\<close> mutates the
  commitment, so the model returns the commitment it leaves. The two
  assertions return \<open>None\<close> when they pass and the error they throw otherwise.
\<close>

record ('c, 'n) externals =
  getAddressFromAssetId :: "asset_id \<Rightarrow> address"
  getSignerAddressFromPublicIdentifier :: "public_identifier \<Rightarrow> address"
  assertSufficientFundsWithinFreeBalance ::
    "StateChannel \<Rightarrow> public_identifier \<Rightarrow> address \<Rightarrow> int \<Rightarrow> error option"
  installApp :: "StateChannel \<Rightarrow> AppInstance \<Rightarrow> TokenIndexedCoinTransferMap \<Rightarrow> error + StateChannel"
  getSetStateCommitment :: "'n \<Rightarrow> FreeBalance \<Rightarrow> 'c"
  hashToSign :: "'c \<Rightarrow> bytes32"
  assertIsValidSignature :: "address \<Rightarrow> bytes32 \<Rightarrow> signature option \<Rightarrow> error option"
  addSignatures :: "'c \<Rightarrow> signature option \<Rightarrow> signature option \<Rightarrow> error + 'c"

subsection \<open>The state channel transition\<close>

text \<open>
  The local variable \<^verbatim>\<open>tokenIndexedBalanceDecrement\<close> of
  \<^verbatim>\<open>computeInstallStateChannelTransition\<close>, as a function of the channel and the
  proposal. \<^verbatim>\<open>toBN\<close> is the identity on integers.
\<close>

definition tokenIndexedBalanceDecrement ::
  "('c, 'n) externals \<Rightarrow> StateChannel \<Rightarrow> AppInstance \<Rightarrow> TokenIndexedCoinTransferMap" where
  "tokenIndexedBalanceDecrement ext stateChannel proposal =
    (let appInitiatorToken = getAddressFromAssetId ext (initiatorDepositAssetId proposal);
         appResponderToken = getAddressFromAssetId ext (responderDepositAssetId proposal);
         appInitiatorFb = getSignerAddressFromPublicIdentifier ext (initiatorIdentifier proposal);
         appResponderFb = getSignerAddressFromPublicIdentifier ext (responderIdentifier proposal);
         sameChannelAndAppOrdering = (appInitiatorFb = fst (multisigOwners stateChannel))
     in if appInitiatorToken \<noteq> appResponderToken
        then object_literal
          [(appInitiatorToken, object_literal [(appInitiatorFb, initiatorDeposit proposal)]),
           (appResponderToken, object_literal [(appResponderFb, responderDeposit proposal)])]
        else object_literal
          [(appResponderToken, object_literal
             [(fst (multisigOwners stateChannel),
                 if sameChannelAndAppOrdering then initiatorDeposit proposal
                 else responderDeposit proposal),
              (snd (multisigOwners stateChannel),
                 if sameChannelAndAppOrdering then responderDeposit proposal
                 else initiatorDeposit proposal)])])"

definition computeInstallStateChannelTransition ::
  "('c, 'n) externals \<Rightarrow> StateChannel \<Rightarrow> AppInstance \<Rightarrow> error + StateChannel" where
  "computeInstallStateChannelTransition ext stateChannel proposal =
     installApp ext stateChannel proposal (tokenIndexedBalanceDecrement ext stateChannel proposal)"

text \<open>
  Modelled from the spec: \<^verbatim>\<open>StateChannel.installApp\<close> is not among the sources. Section 4.2
  says that it verifies that the proposal's identity hash is among the proposed app
  instances (else \<open>AppNotProposed\<close>), verifies that the free balance suffices per asset
  and per owner (else \<open>InsufficientFunds\<close>), and produces a new channel with the proposal
  moved from the proposed to the installed app instances and the free balance reduced
  by the decrement, its version number incremented.
\<close>

definition decrementOf :: "TokenIndexedCoinTransferMap \<Rightarrow> address \<Rightarrow> address \<Rightarrow> int" where
  "decrementOf d t a =
     (case map_of d t of
        None \<Rightarrow> 0
      | Some m \<Rightarrow> (case map_of m a of None \<Rightarrow> 0 | Some n \<Rightarrow> n))"

definition decrementEntries :: "TokenIndexedCoinTransferMap \<Rightarrow> (address \<times> address \<times> int) list" where
  "decrementEntries d = concat (map (\<lambda>tm. map (\<lambda>an. (fst tm, fst an, snd an)) (snd tm)) d)"

definition shortfall :: "FreeBalance \<Rightarrow> TokenIndexedCoinTransferMap \<Rightarrow> error option" where
  "shortfall fb d =
     (case filter (\<lambda>e. balances fb (fst e) (fst (snd e)) < snd (snd e)) (decrementEntries d) of
        [] \<Rightarrow> None
      | e # _ \<Rightarrow>
          Some (InsufficientFunds (fst (snd e)) (fst e)
                  (balances fb (fst e) (fst (snd e))) (snd (snd e))))"

definition installApp_model ::
  "StateChannel \<Rightarrow> AppInstance \<Rightarrow> TokenIndexedCoinTransferMap \<Rightarrow> error + StateChannel" where
  "installApp_model stateChannel proposal decrement =
     (if proposedAppInstances stateChannel (identityHash proposal) = None
      then Inl AppNotProposed
      else (case shortfall (freeBalance stateChannel) decrement of
              Some e \<Rightarrow> Inl e
            | None \<Rightarrow>
                Inr (stateChannel
                  \<lparr> freeBalance := (freeBalance stateChannel)
                      \<lparr> balances := (\<lambda>t a. balances (freeBalance stateChannel) t a
                                              - decrementOf decrement t a),
                        latestVersionNumber := Suc (latestVersionNumber (freeBalance stateChannel)) \<rparr>,
                    appInstances := (appInstances stateChannel)(identityHash proposal \<mapsto> proposal),
                    proposedAppInstances :=
                      (proposedAppInstances stateChannel)(identityHash proposal := None) \<rparr>)))"

text \<open>
  Modelled from the spec: \<^verbatim>\<open>StateChannel.getAppInstance\<close> is not among the sources; it
  looks an installed app instance up by its identity hash and throws when there is none.
\<close>

definition getAppInstance :: "StateChannel \<Rightarrow> string \<Rightarrow> error + AppInstance" where
  "getAppInstance stateChannel h =
     (case appInstances stateChannel h of
        None \<Rightarrow> Inl (Error ''No AppInstance exists for the given identity hash'')
      | Some app \<Rightarrow> Inr app)"

text \<open>
  Modelled from the spec: \<^verbatim>\<open>assertSufficientFundsWithinFreeBalance\<close> is not among the
  sources. Section 4.3 says that it verifies that the depositing party has at least
  the deposit of the asset in the free balance, and fails with
  \<open>InsufficientFunds party asset have need\<close>. The party is the public identifier the
  caller passes; its balance is the one of its signer address.
\<close>

definition assertSufficientFundsWithinFreeBalance_model ::
  "(public_identifier \<Rightarrow> address) \<Rightarrow> StateChannel \<Rightarrow> public_identifier \<Rightarrow> address \<Rightarrow> int
     \<Rightarrow> error option" where
  "assertSufficientFundsWithinFreeBalance_model signerOf channel publicIdentifier tokenAddress depositAmount =
     (let freeBalanceForToken = balances (freeBalance channel) tokenAddress (signerOf publicIdentifier)
      in if freeBalanceForToken < depositAmount
         then Some (InsufficientFunds publicIdentifier tokenAddress freeBalanceForToken depositAmount)
         else None)"

text \<open>
  Modelled from the spec: \<^verbatim>\<open>assertIsValidSignature\<close> is not among the sources. Sections
  4.4 and 4.5 say that it verifies the signature against the hash with an expected
  signer, and section 7 that it fails with \<open>InvalidCounterpartySignature\<close> when the
  recovered signer is not the expected address. \<open>recover\<close> is the recovery of the
  signer of a hash from a signature; a message without a signature has no signer.
\<close>

definition assertIsValidSignature_model ::
  "(bytes32 \<Rightarrow> signature \<Rightarrow> address) \<Rightarrow> address \<Rightarrow> bytes32 \<Rightarrow> signature option \<Rightarrow> error option" where
  "assertIsValidSignature_model recover expectedSigner commitmentHash counterpartySignature =
     (case counterpartySignature of
        None \<Rightarrow> Some InvalidCounterpartySignature
      | Some sig \<Rightarrow>
          if recover commitmentHash sig \<noteq> expectedSigner
          then Some InvalidCounterpartySignature
          else None)"

subsection \<open>Messages, requests and the host\<close>

datatype ProtocolName = install | propose | takeAction | uninstall | update

datatype ProtocolRole = initiator | responder

datatype PersistAppType = CreateInstance | UpdateInstance | RemoveInstance | Reject

text \<open>
  A sequence number is a non-negative integer or the sentinel \<^verbatim>\<open>UNASSIGNED_SEQ_NO\<close>
  (the constant is imported from a file that is not among the sources).
\<close>

datatype SeqNo = SeqNo nat | UNASSIGNED_SEQ_NO

record InstallParams =
  params_initiatorIdentifier :: public_identifier
  params_responderIdentifier :: public_identifier
  params_multisigAddress :: address
  params_proposal :: AppInstance
  appIdentityHash :: string

text \<open>
  \<^verbatim>\<open>ProtocolMessageData\<close>. \<^verbatim>\<open>params\<close> is optional; \<^verbatim>\<open>customData\<close> is an object with
  arbitrary keys, \<^verbatim>\<open>customData.signature\<close> is \<open>map_of (customData m) ''signature''\<close>, which
  is \<open>None\<close> for a message without a signature. A message always has a
  \<^verbatim>\<open>customData\<close> object.
\<close>

record ProtocolMessageData =
  processID :: string
  protocol :: ProtocolName
  params :: "InstallParams option"
  to :: public_identifier
  customData :: "(string \<times> string) list"
  seq :: SeqNo

text \<open>What \<^verbatim>\<open>IO_SEND_AND_WAIT\<close> returns: the counterparty's message in its envelope.\<close>

record ProtocolMessage =
  data :: ProtocolMessageData

datatype InstallMiddlewareContext =
  InstallMiddlewareContext InstallParams StateChannel AppInstance ProtocolRole

text \<open>
  The requests the generator yields, one constructor per opcode, with the arguments
  the source yields.
\<close>

datatype 'c request =
    is_OP_VALIDATE: OP_VALIDATE ProtocolName InstallMiddlewareContext
  | is_OP_SIGN: OP_SIGN bytes32
  | is_IO_SEND_AND_WAIT: IO_SEND_AND_WAIT ProtocolMessageData
  | is_PERSIST_APP_INSTANCE: PERSIST_APP_INSTANCE PersistAppType StateChannel AppInstance 'c
  | is_IO_SEND: IO_SEND ProtocolMessageData StateChannel

text \<open>
  The host answers each request with the value the \<^verbatim>\<open>yield\<close> expression evaluates to,
  or fails (\<open>Inl\<close>, \<open>Some\<close>), which ends the run at that request. A role yields each
  opcode at most once in a run, so a function of the request is any host.
  \<^verbatim>\<open>OP_VALIDATE\<close> answers \<^verbatim>\<open>null\<close> (\<open>None\<close>) or a string.
\<close>

record 'c host =
  op_validate :: "ProtocolName \<Rightarrow> InstallMiddlewareContext \<Rightarrow> error + string option"
  op_sign :: "bytes32 \<Rightarrow> error + signature"
  io_send_and_wait :: "ProtocolMessageData \<Rightarrow> error + ProtocolMessage"
  persist_app_instance :: "PersistAppType \<Rightarrow> StateChannel \<Rightarrow> AppInstance \<Rightarrow> 'c \<Rightarrow> error option"
  io_send :: "ProtocolMessageData \<Rightarrow> StateChannel \<Rightarrow> error option"

text \<open>
  The protocol context: the message that started the run, the channel before the
  protocol, and the network context. The source hands the whole context to
  \<^verbatim>\<open>getSetStateCommitment\<close>; section 4.1 of the specification makes the commitment a
  function of the network addresses of the context and of the app instance, so the
  model hands it the \<open>network\<close> field.
\<close>

record 'n Context =
  message :: ProtocolMessageData
  preProtocolStateChannel :: "StateChannel option"
  network :: 'n

text \<open>JavaScript's \<^verbatim>\<open>!!error\<close> on \<^verbatim>\<open>null\<close> or a string: only a non-empty string is truthy.\<close>

definition truthy :: "string option \<Rightarrow> bool" where
  "truthy v = (case v of None \<Rightarrow> False | Some s \<Rightarrow> s \<noteq> [])"

text \<open>The message of \<^verbatim>\<open>new Error(error)\<close>: the string itself, \<^verbatim>\<open>"null"\<close> for \<^verbatim>\<open>null\<close>.\<close>

definition errorMessage :: "string option \<Rightarrow> string" where
  "errorMessage v = (case v of None \<Rightarrow> ''null'' | Some s \<Rightarrow> s)"

subsection \<open>The protocol engine\<close>

text \<open>
  A run of a role is the list of requests it yields, in order, and how it ends:
  \<open>Inr ()\<close> when the generator returns, \<open>Inl e\<close> when it throws \<open>e\<close> or the host
  fails a request. Each branch that ends the run carries the requests yielded so far.
  \<^verbatim>\<open>AppInstance.fromJson\<close>, \<^verbatim>\<open>toJson\<close> and the logging are left out.
\<close>

definition INSTALL_PROTOCOL_0 ::
  "('c, 'n) externals \<Rightarrow> 'c host \<Rightarrow> 'n Context \<Rightarrow> 'c request list \<times> (error + unit)" where
  "INSTALL_PROTOCOL_0 ext host context =
   (case preProtocolStateChannel context of
      None \<Rightarrow> ([], Inl (Error ''No state channel found for install''))
    | Some preChannel \<Rightarrow>
   (case params (message context) of
      None \<Rightarrow> ([], Inl TypeError)
    | Some ps \<Rightarrow>
   (let proposal = params_proposal ps in
   (case assertSufficientFundsWithinFreeBalance ext preChannel
           (initiatorIdentifier proposal)
           (getAddressFromAssetId ext (initiatorDepositAssetId proposal))
           (initiatorDeposit proposal) of
      Some e \<Rightarrow> ([], Inl e)
    | None \<Rightarrow>
   (case assertSufficientFundsWithinFreeBalance ext preChannel
           (responderIdentifier proposal)
           (getAddressFromAssetId ext (responderDepositAssetId proposal))
           (responderDeposit proposal) of
      Some e \<Rightarrow> ([], Inl e)
    | None \<Rightarrow>
   (case computeInstallStateChannelTransition ext preChannel proposal of
      Inl e \<Rightarrow> ([], Inl e)
    | Inr stateChannelAfter \<Rightarrow>
   (case getAppInstance stateChannelAfter (identityHash proposal) of
      Inl e \<Rightarrow> ([], Inl e)
    | Inr newAppInstance \<Rightarrow>
   (let mwContext = InstallMiddlewareContext ps preChannel newAppInstance initiator;
        validate = OP_VALIDATE install mwContext in
   (case op_validate host install mwContext of
      Inl e \<Rightarrow> ([validate], Inl e)
    | Inr err \<Rightarrow>
   if truthy err then ([validate], Inl (Error (errorMessage err)))
   else
   (let freeBalanceUpdateData =
          getSetStateCommitment ext (network context) (freeBalance stateChannelAfter);
        freeBalanceUpdateDataHash = hashToSign ext freeBalanceUpdateData;
        sign = OP_SIGN freeBalanceUpdateDataHash in
   (case op_sign host freeBalanceUpdateDataHash of
      Inl e \<Rightarrow> ([validate, sign], Inl e)
    | Inr mySignatureOnFreeBalanceStateUpdate \<Rightarrow>
   (let msg = \<lparr> processID = processID (message context),
                 protocol = install,
                 params = Some ps,
                 to = params_responderIdentifier ps,
                 customData = object_literal [(''signature'', mySignatureOnFreeBalanceStateUpdate)],
                 seq = SeqNo 1 \<rparr>;
        sendAndWait = IO_SEND_AND_WAIT msg in
   (case io_send_and_wait host msg of
      Inl e \<Rightarrow> ([validate, sign, sendAndWait], Inl e)
    | Inr reply \<Rightarrow>
   (let counterpartySignatureOnFreeBalanceStateUpdate =
          map_of (customData (data reply)) ''signature'';
        responderSignerAddress =
          getSignerAddressFromPublicIdentifier ext (params_responderIdentifier ps);
        isChannelInitiator = (fst (multisigOwners stateChannelAfter) \<noteq> responderSignerAddress) in
   (case assertIsValidSignature ext responderSignerAddress freeBalanceUpdateDataHash
           counterpartySignatureOnFreeBalanceStateUpdate of
      Some e \<Rightarrow> ([validate, sign, sendAndWait], Inl e)
    | None \<Rightarrow>
   (case addSignatures ext freeBalanceUpdateData
           (if isChannelInitiator then Some mySignatureOnFreeBalanceStateUpdate
            else counterpartySignatureOnFreeBalanceStateUpdate)
           (if isChannelInitiator then counterpartySignatureOnFreeBalanceStateUpdate
            else Some mySignatureOnFreeBalanceStateUpdate) of
      Inl e \<Rightarrow> ([validate, sign, sendAndWait], Inl e)
    | Inr signedCommitment \<Rightarrow>
   (let persist = PERSIST_APP_INSTANCE CreateInstance stateChannelAfter newAppInstance
                    signedCommitment in
   (case persist_app_instance host CreateInstance stateChannelAfter newAppInstance
           signedCommitment of
      Some e \<Rightarrow> ([validate, sign, sendAndWait, persist], Inl e)
    | None \<Rightarrow> ([validate, sign, sendAndWait, persist], Inr ())))))))))))))))))))"

definition INSTALL_PROTOCOL_1 ::
  "('c, 'n) externals \<Rightarrow> 'c host \<Rightarrow> 'n Context \<Rightarrow> 'c request list \<times> (error + unit)" where
  "INSTALL_PROTOCOL_1 ext host context =
   (let counterpartySignatureOnFreeBalanceStateUpdate =
          map_of (customData (message context)) ''signature'' in
   (case preProtocolStateChannel context of
      None \<Rightarrow> ([], Inl (Error ''No state channel found for install''))
    | Some preChannel \<Rightarrow>
   (case params (message context) of
      None \<Rightarrow> ([], Inl TypeError)
    | Some ps \<Rightarrow>
   (let proposal = params_proposal ps in
   (case assertSufficientFundsWithinFreeBalance ext preChannel
           (initiatorIdentifier proposal)
           (getAddressFromAssetId ext (initiatorDepositAssetId proposal))
           (initiatorDeposit proposal) of
      Some e \<Rightarrow> ([], Inl e)
    | None \<Rightarrow>
   (case assertSufficientFundsWithinFreeBalance ext preChannel
           (responderIdentifier proposal)
           (getAddressFromAssetId ext (responderDepositAssetId proposal))
           (responderDeposit proposal) of
      Some e \<Rightarrow> ([], Inl e)
    | None \<Rightarrow>
   (case computeInstallStateChannelTransition ext preChannel proposal of
      Inl e \<Rightarrow> ([], Inl e)
    | Inr stateChannelAfter \<Rightarrow>
   (case getAppInstance stateChannelAfter (identityHash proposal) of
      Inl e \<Rightarrow> ([], Inl e)
    | Inr newAppInstance \<Rightarrow>
   (let mwContext = InstallMiddlewareContext ps preChannel newAppInstance responder;
        validate = OP_VALIDATE install mwContext in
   (case op_validate host install mwContext of
      Inl e \<Rightarrow> ([validate], Inl e)
    | Inr err \<Rightarrow>
   if truthy err then ([validate], Inl (Error (errorMessage err)))
   else
   (let protocolInitiatorAddr =
          getSignerAddressFromPublicIdentifier ext (params_initiatorIdentifier ps);
        freeBalanceUpdateData =
          getSetStateCommitment ext (network context) (freeBalance stateChannelAfter);
        freeBalanceUpdateDataHash = hashToSign ext freeBalanceUpdateData in
   (case assertIsValidSignature ext protocolInitiatorAddr freeBalanceUpdateDataHash
           counterpartySignatureOnFreeBalanceStateUpdate of
      Some e \<Rightarrow> ([validate], Inl e)
    | None \<Rightarrow>
   (let sign = OP_SIGN freeBalanceUpdateDataHash in
   (case op_sign host freeBalanceUpdateDataHash of
      Inl e \<Rightarrow> ([validate, sign], Inl e)
    | Inr mySignatureOnFreeBalanceStateUpdate \<Rightarrow>
   (let isChannelInitiator = (fst (multisigOwners stateChannelAfter) \<noteq> protocolInitiatorAddr) in
   (case addSignatures ext freeBalanceUpdateData
           (if isChannelInitiator then Some mySignatureOnFreeBalanceStateUpdate
            else counterpartySignatureOnFreeBalanceStateUpdate)
           (if isChannelInitiator then counterpartySignatureOnFreeBalanceStateUpdate
            else Some mySignatureOnFreeBalanceStateUpdate) of
      Inl e \<Rightarrow> ([validate, sign], Inl e)
    | Inr signedCommitment \<Rightarrow>
   (let persist = PERSIST_APP_INSTANCE CreateInstance stateChannelAfter newAppInstance
                    signedCommitment in
   (case persist_app_instance host CreateInstance stateChannelAfter newAppInstance
           signedCommitment of
      Some e \<Rightarrow> ([validate, sign, persist], Inl e)
    | None \<Rightarrow>
   (let reply = \<lparr> processID = processID (message context),
                   protocol = install,
                   params = None,
                   to = params_initiatorIdentifier ps,
                   customData = object_literal [(''signature'', mySignatureOnFreeBalanceStateUpdate)],
                   seq = UNASSIGNED_SEQ_NO \<rparr>;
        send = IO_SEND reply stateChannelAfter in
   (case io_send host reply stateChannelAfter of
      Some e \<Rightarrow> ([validate, sign, persist, send], Inl e)
    | None \<Rightarrow> ([validate, sign, persist, send], Inr ())))))))))))))))))))))"

text \<open>
  Modelled from the spec: the store belongs to the host and is not among the sources.
  Section 6 says that \<^verbatim>\<open>PERSIST_APP_INSTANCE\<close> carries the channel to store, and section 7
  that a failed persist leaves the channel as it was. \<open>storedChannel host tr c\<close> is the
  channel in the store after the host has served the requests \<open>tr\<close>, starting from \<open>c\<close>.
\<close>

definition storedChannel :: "'c host \<Rightarrow> 'c request list \<Rightarrow> StateChannel \<Rightarrow> StateChannel" where
  "storedChannel host tr c =
     foldl (\<lambda>stored r.
              case r of
                PERSIST_APP_INSTANCE ty ch app cm \<Rightarrow>
                  (if persist_app_instance host ty ch app cm = None then ch else stored)
              | _ \<Rightarrow> stored) c tr"

subsection \<open>Scenarios\<close>

text \<open>
  The channel of the scenarios of section 8 of the specification: owners \<open>0xA\<close> and
  \<open>0xB\<close>, with a table of what each holds of each token. The asset ids \<open>eth\<close> and \<open>ETH\<close>
  are two spellings of the same token address. A commitment is a pair of its hash and its
  signatures; the hash is built from the network context and the version number of the
  free balance. The signature of the holder of address \<open>a\<close> over the hash \<open>h\<close> is \<open>a:h\<close>.
\<close>

definition scenario_signer :: "public_identifier \<Rightarrow> address" where
  "scenario_signer i = ''0x'' @ i"

definition scenario_recover :: "bytes32 \<Rightarrow> signature \<Rightarrow> address" where
  "scenario_recover h s =
     (if s = ''0xA:'' @ h then ''0xA'' else if s = ''0xB:'' @ h then ''0xB'' else ''0x0'')"

definition scenario_externals :: "(bytes32 \<times> signature option list, string) externals" where
  "scenario_externals =
     \<lparr> getAddressFromAssetId = (\<lambda>a. if a = ''eth'' then ''ETH'' else a),
       getSignerAddressFromPublicIdentifier = scenario_signer,
       assertSufficientFundsWithinFreeBalance =
         assertSufficientFundsWithinFreeBalance_model scenario_signer,
       installApp = installApp_model,
       getSetStateCommitment = (\<lambda>n fb. (n @ replicate (latestVersionNumber fb) (CHR ''+''), [])),
       hashToSign = fst,
       assertIsValidSignature = assertIsValidSignature_model scenario_recover,
       addSignatures = (\<lambda>c s1 s2. Inr (fst c, [s1, s2])) \<rparr>"

definition proposal_S1 :: AppInstance where
  "proposal_S1 =
     \<lparr> identityHash = ''app0'', initiatorIdentifier = ''A'', responderIdentifier = ''B'',
       initiatorDeposit = 30, responderDeposit = 20,
       initiatorDepositAssetId = ''ETH'', responderDepositAssetId = ''DAI'' \<rparr>"

definition proposal_S2 :: AppInstance where
  "proposal_S2 =
     \<lparr> identityHash = ''app1'', initiatorIdentifier = ''A'', responderIdentifier = ''B'',
       initiatorDeposit = 30, responderDeposit = 40,
       initiatorDepositAssetId = ''ETH'', responderDepositAssetId = ''eth'' \<rparr>"

definition proposal_S3 :: AppInstance where
  "proposal_S3 =
     \<lparr> identityHash = ''app2'', initiatorIdentifier = ''B'', responderIdentifier = ''A'',
       initiatorDeposit = 40, responderDeposit = 30,
       initiatorDepositAssetId = ''eth'', responderDepositAssetId = ''ETH'' \<rparr>"

definition scenario_channel :: "((address \<times> address) \<times> int) list \<Rightarrow> StateChannel" where
  "scenario_channel held =
     \<lparr> multisigAddress = ''0xM'',
       multisigOwners = (''0xA'', ''0xB''),
       freeBalance =
         \<lparr> balances = (\<lambda>t a. case map_of held (t, a) of None \<Rightarrow> 0 | Some n \<Rightarrow> n),
           latestVersionNumber = 1 \<rparr>,
       appInstances = Map.empty,
       proposedAppInstances =
         [''app0'' \<mapsto> proposal_S1, ''app1'' \<mapsto> proposal_S2, ''app2'' \<mapsto> proposal_S3],
       monotonicNumProposedApps = 3 \<rparr>"

definition held_S1 :: "((address \<times> address) \<times> int) list" where
  "held_S1 = [((''ETH'', ''0xA''), 100), ((''DAI'', ''0xB''), 50)]"

definition held_S2 :: "((address \<times> address) \<times> int) list" where
  "held_S2 = [((''ETH'', ''0xA''), 100), ((''ETH'', ''0xB''), 100)]"

definition held_S4 :: "((address \<times> address) \<times> int) list" where
  "held_S4 = [((''ETH'', ''0xA''), 10), ((''ETH'', ''0xB''), 100)]"

definition scenario_params :: "public_identifier \<Rightarrow> public_identifier \<Rightarrow> AppInstance \<Rightarrow> InstallParams" where
  "scenario_params i r p =
     \<lparr> params_initiatorIdentifier = i, params_responderIdentifier = r,
       params_multisigAddress = ''0xM'', params_proposal = p,
       appIdentityHash = identityHash p \<rparr>"

text \<open>
  The context of a run: the network context, the parameters, the custom data of the
  message that started the run and what the two owners hold.
\<close>

definition scenario_context ::
  "string \<Rightarrow> InstallParams \<Rightarrow> (string \<times> string) list \<Rightarrow> ((address \<times> address) \<times> int) list
     \<Rightarrow> string Context" where
  "scenario_context n ps cd held =
     \<lparr> message = \<lparr> processID = ''run1'', protocol = install, params = Some ps,
                    to = params_responderIdentifier ps, customData = cd,
                    seq = SeqNo (if cd = [] then 0 else 1) \<rparr>,
       preProtocolStateChannel = Some (scenario_channel held),
       network = n \<rparr>"

text \<open>
  A host that signs for the address \<open>me\<close>, answers \<^verbatim>\<open>OP_VALIDATE\<close> with \<open>verdict\<close>, and
  receives a reply whose custom data is \<open>cd\<close>.
\<close>

definition scenario_host ::
  "address \<Rightarrow> string option \<Rightarrow> (string \<times> string) list \<Rightarrow> (bytes32 \<times> signature option list) host" where
  "scenario_host me verdict cd =
     \<lparr> op_validate = (\<lambda>pn mw. Inr verdict),
       op_sign = (\<lambda>h. Inr (me @ '':'' @ h)),
       io_send_and_wait = (\<lambda>m. Inr \<lparr> data = \<lparr> processID = processID m, protocol = protocol m,
                                               params = None, to = ''A'', customData = cd,
                                               seq = UNASSIGNED_SEQ_NO \<rparr> \<rparr>),
       persist_app_instance = (\<lambda>ty ch app cm. None),
       io_send = (\<lambda>m ch. None) \<rparr>"


section \<open>Properties\<close>

lemmas scenario_defs = scenario_externals_def scenario_signer_def scenario_recover_def
  proposal_S1_def proposal_S2_def proposal_S3_def held_S1_def held_S2_def held_S4_def
  scenario_channel_def scenario_params_def scenario_context_def scenario_host_def

lemmas model_defs = computeInstallStateChannelTransition_def tokenIndexedBalanceDecrement_def
  object_literal_def installApp_model_def shortfall_def decrementEntries_def decrementOf_def
  getAppInstance_def assertSufficientFundsWithinFreeBalance_model_def
  assertIsValidSignature_model_def truthy_def errorMessage_def

subsection \<open>The decrement of the free balance\<close>

text \<open>The two shapes of the decrement, one per branch of the source.\<close>

lemma same_token_decrement:
  assumes "getAddressFromAssetId ext (initiatorDepositAssetId p)
             = getAddressFromAssetId ext (responderDepositAssetId p)"
      and "fst (multisigOwners ch) \<noteq> snd (multisigOwners ch)"
  shows "tokenIndexedBalanceDecrement ext ch p =
     [(getAddressFromAssetId ext (responderDepositAssetId p),
       [(fst (multisigOwners ch),
           if getSignerAddressFromPublicIdentifier ext (initiatorIdentifier p) = fst (multisigOwners ch)
           then initiatorDeposit p else responderDeposit p),
        (snd (multisigOwners ch),
           if getSignerAddressFromPublicIdentifier ext (initiatorIdentifier p) = fst (multisigOwners ch)
           then responderDeposit p else initiatorDeposit p)])]"
  using assms by (simp add: tokenIndexedBalanceDecrement_def object_literal_def Let_def)

lemma different_token_decrement:
  assumes "getAddressFromAssetId ext (initiatorDepositAssetId p)
             \<noteq> getAddressFromAssetId ext (responderDepositAssetId p)"
  shows "tokenIndexedBalanceDecrement ext ch p =
     [(getAddressFromAssetId ext (initiatorDepositAssetId p),
       [(getSignerAddressFromPublicIdentifier ext (initiatorIdentifier p), initiatorDeposit p)]),
      (getAddressFromAssetId ext (responderDepositAssetId p),
       [(getSignerAddressFromPublicIdentifier ext (responderIdentifier p), responderDeposit p)])]"
  using assms by (auto simp add: tokenIndexedBalanceDecrement_def object_literal_def Let_def)

lemma installApp_model_Inr:
  assumes "installApp_model c a d = Inr c'"
  shows "balances (freeBalance c') = (\<lambda>t x. balances (freeBalance c) t x - decrementOf d t x)"
    and "multisigOwners c' = multisigOwners c"
    and "latestVersionNumber (freeBalance c') = Suc (latestVersionNumber (freeBalance c))"
  using assms by (auto simp: installApp_model_def split: if_splits option.splits)

lemma scenario_transition_S2:
  "\<exists>c. computeInstallStateChannelTransition scenario_externals (scenario_channel held_S2) proposal_S2
          = Inr c
       \<and> balances (freeBalance c) ''ETH'' ''0xA'' = 70 \<and> balances (freeBalance c) ''ETH'' ''0xB'' = 60"
  by (simp add: model_defs scenario_defs)

lemma scenario_transition_S3:
  "\<exists>c. computeInstallStateChannelTransition scenario_externals (scenario_channel held_S2) proposal_S3
          = Inr c
       \<and> balances (freeBalance c) ''ETH'' ''0xA'' = 70 \<and> balances (freeBalance c) ''ETH'' ''0xB'' = 60"
  by (simp add: model_defs scenario_defs)

text \<open>
  Claim C1. When the two deposit asset ids resolve to the same token address, the
  decrement has one entry, keyed by that token, whose keys are the two channel owners
  \<open>o0\<close> and \<open>o1\<close>: when the signer address of the app initiator is \<open>o0\<close>, \<open>o0\<close> is
  debited the initiator's deposit and \<open>o1\<close> the responder's, and otherwise the amounts
  are swapped. A proposal \<open>q\<close> that names the same two parties and deposits in the
  reverse app order gets the same decrement, and so the same balances after the install,
  whenever \<^verbatim>\<open>installApp\<close> computes the new balances from the old ones and the decrement.
  The two owners are distinct and, for the reversal, are the two parties of the app.
\<close>

theorem same_asset_tie_break:
  assumes tok: "getAddressFromAssetId ext (initiatorDepositAssetId p)
                  = getAddressFromAssetId ext (responderDepositAssetId p)"
      and owners: "multisigOwners ch = (o0, o1)" "o0 \<noteq> o1"
  shows "tokenIndexedBalanceDecrement ext ch p =
           [(getAddressFromAssetId ext (responderDepositAssetId p),
             if getSignerAddressFromPublicIdentifier ext (initiatorIdentifier p) = o0
             then [(o0, initiatorDeposit p), (o1, responderDeposit p)]
             else [(o0, responderDeposit p), (o1, initiatorDeposit p)])]
       \<and> (initiatorIdentifier q = responderIdentifier p \<and> responderIdentifier q = initiatorIdentifier p
          \<and> initiatorDeposit q = responderDeposit p \<and> responderDeposit q = initiatorDeposit p
          \<and> initiatorDepositAssetId q = responderDepositAssetId p
          \<and> responderDepositAssetId q = initiatorDepositAssetId p
          \<and> {getSignerAddressFromPublicIdentifier ext (initiatorIdentifier p),
              getSignerAddressFromPublicIdentifier ext (responderIdentifier p)} = {o0, o1}
          \<longrightarrow> tokenIndexedBalanceDecrement ext ch q = tokenIndexedBalanceDecrement ext ch p
            \<and> (\<forall>g c1 c2.
                  (\<forall>c a d c'. installApp ext c a d = Inr c'
                      \<longrightarrow> balances (freeBalance c') = g (balances (freeBalance c)) d)
                  \<and> computeInstallStateChannelTransition ext ch p = Inr c1
                  \<and> computeInstallStateChannelTransition ext ch q = Inr c2
                  \<longrightarrow> balances (freeBalance c1) = balances (freeBalance c2)))"
proof (intro conjI impI)
  have d: "fst (multisigOwners ch) \<noteq> snd (multisigOwners ch)"
    using owners by simp
  show "tokenIndexedBalanceDecrement ext ch p =
           [(getAddressFromAssetId ext (responderDepositAssetId p),
             if getSignerAddressFromPublicIdentifier ext (initiatorIdentifier p) = o0
             then [(o0, initiatorDeposit p), (o1, responderDeposit p)]
             else [(o0, responderDeposit p), (o1, initiatorDeposit p)])]"
    using same_token_decrement[OF tok d] owners by simp
  assume rev: "initiatorIdentifier q = responderIdentifier p \<and> responderIdentifier q = initiatorIdentifier p
          \<and> initiatorDeposit q = responderDeposit p \<and> responderDeposit q = initiatorDeposit p
          \<and> initiatorDepositAssetId q = responderDepositAssetId p
          \<and> responderDepositAssetId q = initiatorDepositAssetId p
          \<and> {getSignerAddressFromPublicIdentifier ext (initiatorIdentifier p),
              getSignerAddressFromPublicIdentifier ext (responderIdentifier p)} = {o0, o1}"
  have tokq: "getAddressFromAssetId ext (initiatorDepositAssetId q)
                = getAddressFromAssetId ext (responderDepositAssetId q)"
    using rev tok by simp
  show same: "tokenIndexedBalanceDecrement ext ch q = tokenIndexedBalanceDecrement ext ch p"
    unfolding same_token_decrement[OF tok d] same_token_decrement[OF tokq d]
    using rev tok owners by (auto simp: doubleton_eq_iff)
  show "\<forall>g c1 c2.
          (\<forall>c a d c'. installApp ext c a d = Inr c'
              \<longrightarrow> balances (freeBalance c') = g (balances (freeBalance c)) d)
          \<and> computeInstallStateChannelTransition ext ch p = Inr c1
          \<and> computeInstallStateChannelTransition ext ch q = Inr c2
          \<longrightarrow> balances (freeBalance c1) = balances (freeBalance c2)"
    unfolding computeInstallStateChannelTransition_def same by metis
qed

text \<open>
  Scenarios S2 and S3: owner \<open>0xA\<close> deposits 30 and owner \<open>0xB\<close> deposits 40 of the same
  token, once with \<open>A\<close> and once with \<open>B\<close> as the initiator of the app. Both proposals
  give the same decrement and leave the same balances.
\<close>

theorem same_asset_tie_break_witness:
  "tokenIndexedBalanceDecrement scenario_externals (scenario_channel held_S2) proposal_S2
     = [(''ETH'', [(''0xA'', 30), (''0xB'', 40)])]
   \<and> tokenIndexedBalanceDecrement scenario_externals (scenario_channel held_S2) proposal_S3
     = [(''ETH'', [(''0xA'', 30), (''0xB'', 40)])]
   \<and> (\<exists>c1 c2.
         computeInstallStateChannelTransition scenario_externals (scenario_channel held_S2) proposal_S2
           = Inr c1
       \<and> computeInstallStateChannelTransition scenario_externals (scenario_channel held_S2) proposal_S3
           = Inr c2
       \<and> balances (freeBalance c1) = balances (freeBalance c2)
       \<and> balances (freeBalance c1) ''ETH'' ''0xA'' = 70
       \<and> balances (freeBalance c1) ''ETH'' ''0xB'' = 60)"
proof -
  let ?E = scenario_externals and ?ch = "scenario_channel held_S2"
  have tok: "getAddressFromAssetId ?E (initiatorDepositAssetId proposal_S2)
               = getAddressFromAssetId ?E (responderDepositAssetId proposal_S2)"
    by (simp add: scenario_defs)
  have owners: "multisigOwners ?ch = (''0xA'', ''0xB'')" "''0xA'' \<noteq> ''0xB''"
    by (simp_all add: scenario_defs)
  have rev: "initiatorIdentifier proposal_S3 = responderIdentifier proposal_S2
          \<and> responderIdentifier proposal_S3 = initiatorIdentifier proposal_S2
          \<and> initiatorDeposit proposal_S3 = responderDeposit proposal_S2
          \<and> responderDeposit proposal_S3 = initiatorDeposit proposal_S2
          \<and> initiatorDepositAssetId proposal_S3 = responderDepositAssetId proposal_S2
          \<and> responderDepositAssetId proposal_S3 = initiatorDepositAssetId proposal_S2
          \<and> {getSignerAddressFromPublicIdentifier ?E (initiatorIdentifier proposal_S2),
              getSignerAddressFromPublicIdentifier ?E (responderIdentifier proposal_S2)}
             = {''0xA'', ''0xB''}"
    by (simp add: scenario_defs)
  note tie = same_asset_tie_break[OF tok owners, of proposal_S3]
  have d2: "tokenIndexedBalanceDecrement ?E ?ch proposal_S2
              = [(''ETH'', [(''0xA'', 30), (''0xB'', 40)])]"
    using tie[THEN conjunct1]
    by (simp add: scenario_externals_def scenario_signer_def proposal_S2_def)
  note reversed = tie[THEN conjunct2, THEN mp, OF rev]
  have d3: "tokenIndexedBalanceDecrement ?E ?ch proposal_S3
              = tokenIndexedBalanceDecrement ?E ?ch proposal_S2"
    using reversed by (rule conjunct1)
  obtain c1 where c1: "computeInstallStateChannelTransition ?E ?ch proposal_S2 = Inr c1"
      "balances (freeBalance c1) ''ETH'' ''0xA'' = 70" "balances (freeBalance c1) ''ETH'' ''0xB'' = 60"
    using scenario_transition_S2 by blast
  obtain c2 where c2: "computeInstallStateChannelTransition ?E ?ch proposal_S3 = Inr c2"
    using scenario_transition_S3 by blast
  have m: "\<forall>c a d c'. installApp ?E c a d = Inr c'
             \<longrightarrow> balances (freeBalance c')
                   = (\<lambda>b d t x. b t x - decrementOf d t x) (balances (freeBalance c)) d"
    using installApp_model_Inr(1) by (simp add: scenario_externals_def)
  have eq: "balances (freeBalance c1) = balances (freeBalance c2)"
    using reversed[THEN conjunct2, rule_format,
      of "\<lambda>b d t x. b t x - decrementOf d t x" c1 c2] m c1(1) c2
    by simp
  from d2 d3 c1 c2 eq show ?thesis by simp
qed


lemma scenario_transition_S1:
  "\<exists>c. computeInstallStateChannelTransition scenario_externals (scenario_channel held_S1) proposal_S1
          = Inr c"
  by (simp add: model_defs scenario_defs)

text \<open>
  Claim C2. The install conserves the total of every asset: for a channel with two
  distinct owners and a proposal whose two parties are those owners, and for every token
  \<open>t\<close>, what the two owners hold of \<open>t\<close> before the install is what they hold after it
  plus the deposits of the app in \<open>t\<close>. \<^verbatim>\<open>installApp\<close> is the model of section 4.2.
\<close>

theorem install_conserves_asset_totals:
  assumes model: "installApp ext = installApp_model"
      and run: "computeInstallStateChannelTransition ext ch p = Inr ch'"
      and owners: "multisigOwners ch = (o0, o1)" "o0 \<noteq> o1"
      and parties: "{getSignerAddressFromPublicIdentifier ext (initiatorIdentifier p),
                     getSignerAddressFromPublicIdentifier ext (responderIdentifier p)} = {o0, o1}"
  shows "balances (freeBalance ch) t o0 + balances (freeBalance ch) t o1
       = balances (freeBalance ch') t o0 + balances (freeBalance ch') t o1
         + ((if getAddressFromAssetId ext (initiatorDepositAssetId p) = t
             then initiatorDeposit p else 0)
          + (if getAddressFromAssetId ext (responderDepositAssetId p) = t
             then responderDeposit p else 0))"
proof -
  let ?d = "tokenIndexedBalanceDecrement ext ch p"
  from run model have "installApp_model ch p ?d = Inr ch'"
    by (simp add: computeInstallStateChannelTransition_def)
  then have post: "balances (freeBalance ch') t x
                     = balances (freeBalance ch) t x - decrementOf ?d t x" for x
    by (simp add: installApp_model_Inr(1))
  have debit: "decrementOf ?d t o0 + decrementOf ?d t o1
       = (if getAddressFromAssetId ext (initiatorDepositAssetId p) = t then initiatorDeposit p else 0)
          + (if getAddressFromAssetId ext (responderDepositAssetId p) = t then responderDeposit p else 0)"
  proof (cases "getAddressFromAssetId ext (initiatorDepositAssetId p)
                  = getAddressFromAssetId ext (responderDepositAssetId p)")
    case True
    have d: "fst (multisigOwners ch) \<noteq> snd (multisigOwners ch)"
      using owners by simp
    show ?thesis
      unfolding same_token_decrement[OF True d]
      using owners True by (simp add: decrementOf_def)
  next
    case False
    show ?thesis
      unfolding different_token_decrement[OF False]
      using owners parties False by (auto simp: decrementOf_def doubleton_eq_iff)
  qed
  show ?thesis
    unfolding post using debit by linarith
qed

text \<open>
  Scenario S1 (different assets: 30 \<open>ETH\<close> from \<open>0xA\<close>, 20 \<open>DAI\<close> from \<open>0xB\<close>) and scenario
  S2 (the same asset: 30 and 40 \<open>ETH\<close>).
\<close>

theorem install_conserves_asset_totals_witness:
  "(\<exists>c. computeInstallStateChannelTransition scenario_externals (scenario_channel held_S1) proposal_S1
           = Inr c
        \<and> balances (freeBalance c) ''ETH'' ''0xA'' + balances (freeBalance c) ''ETH'' ''0xB'' = 70
        \<and> balances (freeBalance c) ''DAI'' ''0xA'' + balances (freeBalance c) ''DAI'' ''0xB'' = 30)
   \<and> (\<exists>c. computeInstallStateChannelTransition scenario_externals (scenario_channel held_S2) proposal_S2
           = Inr c
        \<and> balances (freeBalance c) ''ETH'' ''0xA'' + balances (freeBalance c) ''ETH'' ''0xB'' = 130)"
proof -
  let ?E = scenario_externals
  have m: "installApp ?E = installApp_model"
    by (simp add: scenario_externals_def)
  have o1: "multisigOwners (scenario_channel held_S1) = (''0xA'', ''0xB'')"
   and o2: "multisigOwners (scenario_channel held_S2) = (''0xA'', ''0xB'')"
   and ne: "''0xA'' \<noteq> ''0xB''"
    by (simp_all add: scenario_channel_def)
  have p1: "{getSignerAddressFromPublicIdentifier ?E (initiatorIdentifier proposal_S1),
             getSignerAddressFromPublicIdentifier ?E (responderIdentifier proposal_S1)}
            = {''0xA'', ''0xB''}"
   and p2: "{getSignerAddressFromPublicIdentifier ?E (initiatorIdentifier proposal_S2),
             getSignerAddressFromPublicIdentifier ?E (responderIdentifier proposal_S2)}
            = {''0xA'', ''0xB''}"
    by (simp_all add: scenario_defs)
  obtain c1 where c1: "computeInstallStateChannelTransition ?E (scenario_channel held_S1) proposal_S1
                         = Inr c1"
    using scenario_transition_S1 by blast
  obtain c2 where c2: "computeInstallStateChannelTransition ?E (scenario_channel held_S2) proposal_S2
                         = Inr c2"
    using scenario_transition_S2 by blast
  have eth1: "balances (freeBalance c1) ''ETH'' ''0xA'' + balances (freeBalance c1) ''ETH'' ''0xB'' = 70"
    using install_conserves_asset_totals[OF m c1 o1 ne p1, of "''ETH''"]
    by (simp add: scenario_defs)
  have dai1: "balances (freeBalance c1) ''DAI'' ''0xA'' + balances (freeBalance c1) ''DAI'' ''0xB'' = 30"
    using install_conserves_asset_totals[OF m c1 o1 ne p1, of "''DAI''"]
    by (simp add: scenario_defs)
  have eth2: "balances (freeBalance c2) ''ETH'' ''0xA'' + balances (freeBalance c2) ''ETH'' ''0xB'' = 130"
    using install_conserves_asset_totals[OF m c2 o2 ne p2, of "''ETH''"]
    by (simp add: scenario_defs)
  from c1 c2 eth1 dai1 eth2 show ?thesis by simp
qed

text \<open>
  Claim C9. The branch is chosen on the token addresses, not on the asset ids: for a
  proposal whose two asset ids are different strings with the same token address, the
  decrement is the single entry of the same-asset branch, keyed by that token address,
  and holds one amount for each of the two (distinct) channel owners, the initiator's
  deposit and the responder's.
\<close>

theorem same_asset_branch_on_token_address:
  assumes raw: "initiatorDepositAssetId p \<noteq> responderDepositAssetId p"
      and tok: "getAddressFromAssetId ext (initiatorDepositAssetId p)
                  = getAddressFromAssetId ext (responderDepositAssetId p)"
      and owners: "multisigOwners ch = (o0, o1)" "o0 \<noteq> o1"
  shows "tokenIndexedBalanceDecrement ext ch p
           = [(getAddressFromAssetId ext (initiatorDepositAssetId p),
               [(o0, if getSignerAddressFromPublicIdentifier ext (initiatorIdentifier p) = o0
                     then initiatorDeposit p else responderDeposit p),
                (o1, if getSignerAddressFromPublicIdentifier ext (initiatorIdentifier p) = o0
                     then responderDeposit p else initiatorDeposit p)])]"
proof -
  have d: "fst (multisigOwners ch) \<noteq> snd (multisigOwners ch)"
    using owners by simp
  show ?thesis
    unfolding same_token_decrement[OF tok d] using owners tok by simp
qed

text \<open>Scenario S2 spells the token \<open>ETH\<close> for the initiator and \<open>eth\<close> for the responder.\<close>

theorem same_asset_branch_on_token_address_witness:
  "initiatorDepositAssetId proposal_S2 \<noteq> responderDepositAssetId proposal_S2
   \<and> tokenIndexedBalanceDecrement scenario_externals (scenario_channel held_S2) proposal_S2
       = [(''ETH'', [(''0xA'', 30), (''0xB'', 40)])]"
proof -
  let ?E = scenario_externals
  have raw: "initiatorDepositAssetId proposal_S2 \<noteq> responderDepositAssetId proposal_S2"
    by (simp add: proposal_S2_def)
  have tok: "getAddressFromAssetId ?E (initiatorDepositAssetId proposal_S2)
               = getAddressFromAssetId ?E (responderDepositAssetId proposal_S2)"
    by (simp add: scenario_defs)
  have owners: "multisigOwners (scenario_channel held_S2) = (''0xA'', ''0xB'')" "''0xA'' \<noteq> ''0xB''"
    by (simp_all add: scenario_channel_def)
  have "tokenIndexedBalanceDecrement ?E (scenario_channel held_S2) proposal_S2
          = [(''ETH'', [(''0xA'', 30), (''0xB'', 40)])]"
    using same_asset_branch_on_token_address[OF raw tok owners]
    by (simp add: scenario_externals_def scenario_signer_def proposal_S2_def)
  with raw show ?thesis by simp
qed

subsection \<open>The protocol engine\<close>

text \<open>
  The runs of the scenarios. \<open>B\<close> starts the protocol for the app of scenario S2 and \<open>A\<close>
  responds; the hash of the commitment is \<open>net++\<close>.
\<close>

lemma scenario_initiator_run:
  "\<exists>post. INSTALL_PROTOCOL_0 scenario_externals
             (scenario_host ''0xB'' None [(''signature'', ''0xA:net++'')])
             (scenario_context ''net'' (scenario_params ''B'' ''A'' proposal_S2) [] held_S2)
      = ([OP_VALIDATE install (InstallMiddlewareContext (scenario_params ''B'' ''A'' proposal_S2)
             (scenario_channel held_S2) proposal_S2 initiator),
          OP_SIGN ''net++'',
          IO_SEND_AND_WAIT \<lparr> processID = ''run1'', protocol = install,
             params = Some (scenario_params ''B'' ''A'' proposal_S2), to = ''A'',
             customData = [(''signature'', ''0xB:net++'')], seq = SeqNo 1 \<rparr>,
          PERSIST_APP_INSTANCE CreateInstance post proposal_S2
             (''net++'', [Some ''0xA:net++'', Some ''0xB:net++''])], Inr ())
       \<and> multisigOwners post = (''0xA'', ''0xB'')
       \<and> getSetStateCommitment scenario_externals ''net'' (freeBalance post) = (''net++'', [])"
  by (simp add: INSTALL_PROTOCOL_0_def Let_def model_defs scenario_defs)

lemma scenario_responder_run:
  "\<exists>post. INSTALL_PROTOCOL_1 scenario_externals
             (scenario_host ''0xA'' None [])
             (scenario_context ''net'' (scenario_params ''B'' ''A'' proposal_S2)
                [(''signature'', ''0xB:net++'')] held_S2)
      = ([OP_VALIDATE install (InstallMiddlewareContext (scenario_params ''B'' ''A'' proposal_S2)
             (scenario_channel held_S2) proposal_S2 responder),
          OP_SIGN ''net++'',
          PERSIST_APP_INSTANCE CreateInstance post proposal_S2
             (''net++'', [Some ''0xA:net++'', Some ''0xB:net++'']),
          IO_SEND \<lparr> processID = ''run1'', protocol = install, params = None, to = ''B'',
             customData = [(''signature'', ''0xA:net++'')], seq = UNASSIGNED_SEQ_NO \<rparr> post],
         Inr ())
       \<and> multisigOwners post = (''0xA'', ''0xB'')
       \<and> getSetStateCommitment scenario_externals ''net'' (freeBalance post) = (''net++'', [])"
  by (simp add: INSTALL_PROTOCOL_1_def Let_def model_defs scenario_defs)

text \<open>
  Claim C3. In a run of either role that reaches \<^verbatim>\<open>PERSIST_APP_INSTANCE\<close> (every
  successful run does), the persisted commitment is what \<^verbatim>\<open>addSignatures\<close> returned for
  the signature of the party whose signer address is \<open>multisigOwners[0]\<close> as its first
  argument and the signature of the party whose signer address is \<open>multisigOwners[1]\<close> as
  its second, whichever of the two started the protocol. \<open>I\<close> and \<open>R\<close> are the signer
  addresses of the protocol initiator and responder, and they are the two distinct
  owners. The initiator's signature is its own in role 0 and the one of the incoming
  message in role 1; the responder's is the one of the reply in role 0 and its own in
  role 1.
\<close>

theorem signatures_in_owner_order:
  assumes ps: "params (message ctx) = Some ps"
      and addrI: "I = getSignerAddressFromPublicIdentifier ext (params_initiatorIdentifier ps)"
      and addrR: "R = getSignerAddressFromPublicIdentifier ext (params_responderIdentifier ps)"
      and persisted: "PERSIST_APP_INSTANCE ty post app signed \<in> set tr"
      and owners: "multisigOwners post = (o0, o1)" "o0 \<noteq> o1"
      and parties: "{I, R} = {o0, o1}"
      and commit: "commit = getSetStateCommitment ext (network ctx) (freeBalance post)"
  shows "(INSTALL_PROTOCOL_0 ext host ctx = (tr, out) \<longrightarrow>
            (\<exists>mine m reply.
                op_sign host (hashToSign ext commit) = Inr mine
              \<and> IO_SEND_AND_WAIT m \<in> set tr \<and> io_send_and_wait host m = Inr reply
              \<and> addSignatures ext commit
                   (if o0 = I then Some mine else map_of (customData (data reply)) ''signature'')
                   (if o1 = I then Some mine else map_of (customData (data reply)) ''signature'')
                 = Inr signed))
       \<and> (INSTALL_PROTOCOL_1 ext host ctx = (tr, out) \<longrightarrow>
            (\<exists>mine.
                op_sign host (hashToSign ext commit) = Inr mine
              \<and> addSignatures ext commit
                   (if o0 = I then map_of (customData (message ctx)) ''signature'' else Some mine)
                   (if o1 = I then map_of (customData (message ctx)) ''signature'' else Some mine)
                 = Inr signed))"
proof (intro conjI impI)
  assume "INSTALL_PROTOCOL_0 ext host ctx = (tr, out)"
  then show "\<exists>mine m reply.
                op_sign host (hashToSign ext commit) = Inr mine
              \<and> IO_SEND_AND_WAIT m \<in> set tr \<and> io_send_and_wait host m = Inr reply
              \<and> addSignatures ext commit
                   (if o0 = I then Some mine else map_of (customData (data reply)) ''signature'')
                   (if o1 = I then Some mine else map_of (customData (data reply)) ''signature'')
                 = Inr signed"
    using ps addrI addrR persisted owners parties commit
    by (auto simp: INSTALL_PROTOCOL_0_def Let_def doubleton_eq_iff
             split: option.splits sum.splits if_splits)
next
  assume "INSTALL_PROTOCOL_1 ext host ctx = (tr, out)"
  then show "\<exists>mine.
                op_sign host (hashToSign ext commit) = Inr mine
              \<and> addSignatures ext commit
                   (if o0 = I then map_of (customData (message ctx)) ''signature'' else Some mine)
                   (if o1 = I then map_of (customData (message ctx)) ''signature'' else Some mine)
                 = Inr signed"
    using ps addrI addrR persisted owners parties commit
    by (auto simp: INSTALL_PROTOCOL_1_def Let_def doubleton_eq_iff
             split: option.splits sum.splits if_splits)
qed

text \<open>
  \<open>B\<close>, the second owner, starts the protocol. In both roles the signature of \<open>0xA\<close> is
  the first argument and the signature of \<open>0xB\<close> the second.
\<close>

theorem signatures_in_owner_order_witness:
  "(\<exists>post mine (reply :: ProtocolMessage).
      PERSIST_APP_INSTANCE CreateInstance post proposal_S2
          (''net++'', [Some ''0xA:net++'', Some ''0xB:net++''])
        \<in> set (fst (INSTALL_PROTOCOL_0 scenario_externals
                       (scenario_host ''0xB'' None [(''signature'', ''0xA:net++'')])
                       (scenario_context ''net'' (scenario_params ''B'' ''A'' proposal_S2) [] held_S2)))
    \<and> op_sign (scenario_host ''0xB'' None [(''signature'', ''0xA:net++'')]) ''net++'' = Inr mine
    \<and> map_of (customData (data reply)) ''signature'' = Some ''0xA:net++''
    \<and> addSignatures scenario_externals (''net++'', [])
         (map_of (customData (data reply)) ''signature'') (Some mine)
       = Inr (''net++'', [Some ''0xA:net++'', Some ''0xB:net++'']))
   \<and> (\<exists>post mine.
      PERSIST_APP_INSTANCE CreateInstance post proposal_S2
          (''net++'', [Some ''0xA:net++'', Some ''0xB:net++''])
        \<in> set (fst (INSTALL_PROTOCOL_1 scenario_externals
                       (scenario_host ''0xA'' None [])
                       (scenario_context ''net'' (scenario_params ''B'' ''A'' proposal_S2)
                          [(''signature'', ''0xB:net++'')] held_S2)))
    \<and> op_sign (scenario_host ''0xA'' None []) ''net++'' = Inr mine
    \<and> addSignatures scenario_externals (''net++'', []) (Some mine) (Some ''0xB:net++'')
       = Inr (''net++'', [Some ''0xA:net++'', Some ''0xB:net++'']))"
proof -
  let ?E = scenario_externals
  let ?ps = "scenario_params ''B'' ''A'' proposal_S2"
  let ?H0 = "scenario_host ''0xB'' None [(''signature'', ''0xA:net++'')]"
  let ?C0 = "scenario_context ''net'' ?ps [] held_S2"
  let ?H1 = "scenario_host ''0xA'' None []"
  let ?C1 = "scenario_context ''net'' ?ps [(''signature'', ''0xB:net++'')] held_S2"
  let ?signed = "(''net++'', [Some ''0xA:net++'', Some ''0xB:net++''])"
  have ne: "''0xA'' \<noteq> ''0xB''" by simp
  have addrI: "''0xB'' = getSignerAddressFromPublicIdentifier ?E (params_initiatorIdentifier ?ps)"
   and addrR: "''0xA'' = getSignerAddressFromPublicIdentifier ?E (params_responderIdentifier ?ps)"
    by (simp_all add: scenario_defs)
  have parties: "{''0xB'', ''0xA''} = {''0xA'', ''0xB''}" by auto
  have ps0: "params (message ?C0) = Some ?ps" and ps1: "params (message ?C1) = Some ?ps"
    by (simp_all add: scenario_context_def)
  have net0: "network ?C0 = ''net''" and net1: "network ?C1 = ''net''"
    by (simp_all add: scenario_context_def)
  have hash: "hashToSign ?E (''net++'', []) = ''net++''"
    by (simp add: scenario_externals_def)
  obtain post0 tr0 where run0: "INSTALL_PROTOCOL_0 ?E ?H0 ?C0 = (tr0, Inr ())"
      and p0: "PERSIST_APP_INSTANCE CreateInstance post0 proposal_S2 ?signed \<in> set tr0"
      and o0: "multisigOwners post0 = (''0xA'', ''0xB'')"
      and c0: "getSetStateCommitment ?E ''net'' (freeBalance post0) = (''net++'', [])"
    using scenario_initiator_run by force
  have c0': "(''net++'', []) = getSetStateCommitment ?E (network ?C0) (freeBalance post0)"
    using c0 net0 by simp
  obtain mine0 m0 reply0 where
      s0: "op_sign ?H0 (hashToSign ?E (''net++'', [])) = Inr mine0"
      and w0: "io_send_and_wait ?H0 m0 = Inr reply0"
      and a0: "addSignatures ?E (''net++'', [])
                 (if ''0xA'' = ''0xB'' then Some mine0 else map_of (customData (data reply0)) ''signature'')
                 (if ''0xB'' = ''0xB'' then Some mine0 else map_of (customData (data reply0)) ''signature'')
               = Inr ?signed"
    using signatures_in_owner_order[OF ps0 addrI addrR p0 o0 ne parties c0',
            THEN conjunct1, THEN mp, OF run0]
    by blast
  have r0: "map_of (customData (data reply0)) ''signature'' = Some ''0xA:net++''"
    using w0 by (auto simp add: scenario_host_def)
  obtain post1 tr1 where run1: "INSTALL_PROTOCOL_1 ?E ?H1 ?C1 = (tr1, Inr ())"
      and p1: "PERSIST_APP_INSTANCE CreateInstance post1 proposal_S2 ?signed \<in> set tr1"
      and o1: "multisigOwners post1 = (''0xA'', ''0xB'')"
      and c1: "getSetStateCommitment ?E ''net'' (freeBalance post1) = (''net++'', [])"
    using scenario_responder_run by force
  have c1': "(''net++'', []) = getSetStateCommitment ?E (network ?C1) (freeBalance post1)"
    using c1 net1 by simp
  obtain mine1 where
      s1: "op_sign ?H1 (hashToSign ?E (''net++'', [])) = Inr mine1"
      and a1: "addSignatures ?E (''net++'', [])
                 (if ''0xA'' = ''0xB'' then map_of (customData (message ?C1)) ''signature'' else Some mine1)
                 (if ''0xB'' = ''0xB'' then map_of (customData (message ?C1)) ''signature'' else Some mine1)
               = Inr ?signed"
    using signatures_in_owner_order[OF ps1 addrI addrR p1 o1 ne parties c1',
            THEN conjunct2, THEN mp, OF run1]
    by blast
  have cd1: "map_of (customData (message ?C1)) ''signature'' = Some ''0xB:net++''"
    by (simp add: scenario_context_def)
  have "PERSIST_APP_INSTANCE CreateInstance post0 proposal_S2 ?signed
        \<in> set (fst (INSTALL_PROTOCOL_0 ?E ?H0 ?C0))
    \<and> op_sign ?H0 ''net++'' = Inr mine0
    \<and> map_of (customData (data reply0)) ''signature'' = Some ''0xA:net++''
    \<and> addSignatures ?E (''net++'', [])
         (map_of (customData (data reply0)) ''signature'') (Some mine0) = Inr ?signed"
    using run0 p0 s0 r0 a0 hash by simp
  then have first: "\<exists>post mine (reply :: ProtocolMessage).
      PERSIST_APP_INSTANCE CreateInstance post proposal_S2 ?signed
        \<in> set (fst (INSTALL_PROTOCOL_0 ?E ?H0 ?C0))
    \<and> op_sign ?H0 ''net++'' = Inr mine
    \<and> map_of (customData (data reply)) ''signature'' = Some ''0xA:net++''
    \<and> addSignatures ?E (''net++'', [])
         (map_of (customData (data reply)) ''signature'') (Some mine) = Inr ?signed"
    by blast
  have "PERSIST_APP_INSTANCE CreateInstance post1 proposal_S2 ?signed
        \<in> set (fst (INSTALL_PROTOCOL_1 ?E ?H1 ?C1))
    \<and> op_sign ?H1 ''net++'' = Inr mine1
    \<and> addSignatures ?E (''net++'', []) (Some mine1) (Some ''0xB:net++'') = Inr ?signed"
    using run1 p1 s1 a1 cd1 hash by simp
  then have second: "\<exists>post mine.
      PERSIST_APP_INSTANCE CreateInstance post proposal_S2 ?signed
        \<in> set (fst (INSTALL_PROTOCOL_1 ?E ?H1 ?C1))
    \<and> op_sign ?H1 ''net++'' = Inr mine
    \<and> addSignatures ?E (''net++'', []) (Some mine) (Some ''0xB:net++'') = Inr ?signed"
    by blast
  from first second show ?thesis by (rule conjI)
qed

text \<open>
  Claim C4. In every run of the responder, an \<^verbatim>\<open>OP_SIGN\<close> request is yielded only after
  \<^verbatim>\<open>assertIsValidSignature\<close> has passed for the signer address of the protocol initiator,
  the hash of the free-balance commitment and the signature of the incoming message, and
  the hash it asks to sign is that hash; and every \<^verbatim>\<open>IO_SEND\<close> request comes after a
  \<^verbatim>\<open>PERSIST_APP_INSTANCE\<close> request that the host has served.
\<close>

theorem responder_verifies_before_signing:
  assumes run: "INSTALL_PROTOCOL_1 ext host ctx = (tr, out)"
  shows "(\<forall>h. OP_SIGN h \<in> set tr \<longrightarrow>
            (\<exists>ps pre post.
                params (message ctx) = Some ps \<and> preProtocolStateChannel ctx = Some pre
              \<and> computeInstallStateChannelTransition ext pre (params_proposal ps) = Inr post
              \<and> h = hashToSign ext (getSetStateCommitment ext (network ctx) (freeBalance post))
              \<and> assertIsValidSignature ext
                    (getSignerAddressFromPublicIdentifier ext (params_initiatorIdentifier ps)) h
                    (map_of (customData (message ctx)) ''signature'') = None))
       \<and> (\<forall>before m ch after. tr = before @ IO_SEND m ch # after \<longrightarrow>
            (\<exists>ty c app cm. PERSIST_APP_INSTANCE ty c app cm \<in> set before
                          \<and> persist_app_instance host ty c app cm = None))"
  using run
  by (auto simp: INSTALL_PROTOCOL_1_def Let_def Cons_eq_append_conv
           split: option.splits sum.splits if_splits)

text \<open>
  The responder \<open>A\<close> signs the hash \<open>net++\<close> after the signature of \<open>B\<close> over it has been
  checked, and sends its reply as the fourth request, after the persist request.
\<close>

theorem responder_verifies_before_signing_witness:
  "OP_SIGN ''net++''
     \<in> set (fst (INSTALL_PROTOCOL_1 scenario_externals (scenario_host ''0xA'' None [])
                    (scenario_context ''net'' (scenario_params ''B'' ''A'' proposal_S2)
                       [(''signature'', ''0xB:net++'')] held_S2)))
   \<and> assertIsValidSignature scenario_externals ''0xB'' ''net++'' (Some ''0xB:net++'') = None
   \<and> is_IO_SEND (fst (INSTALL_PROTOCOL_1 scenario_externals (scenario_host ''0xA'' None [])
                    (scenario_context ''net'' (scenario_params ''B'' ''A'' proposal_S2)
                       [(''signature'', ''0xB:net++'')] held_S2)) ! 3)
   \<and> (\<exists>ty c app cm.
         PERSIST_APP_INSTANCE ty c app cm
           \<in> set (take 3 (fst (INSTALL_PROTOCOL_1 scenario_externals (scenario_host ''0xA'' None [])
                    (scenario_context ''net'' (scenario_params ''B'' ''A'' proposal_S2)
                       [(''signature'', ''0xB:net++'')] held_S2))))
       \<and> persist_app_instance (scenario_host ''0xA'' None []) ty c app cm = None)"
proof -
  let ?E = scenario_externals
  let ?ps = "scenario_params ''B'' ''A'' proposal_S2"
  let ?H = "scenario_host ''0xA'' None []"
  let ?C = "scenario_context ''net'' ?ps [(''signature'', ''0xB:net++'')] held_S2"
  let ?V = "OP_VALIDATE install (InstallMiddlewareContext ?ps (scenario_channel held_S2)
              proposal_S2 responder)"
  let ?m = "\<lparr> processID = ''run1'', protocol = install, params = None, to = ''B'',
             customData = [(''signature'', ''0xA:net++'')], seq = UNASSIGNED_SEQ_NO \<rparr>"
  obtain post where run: "INSTALL_PROTOCOL_1 ?E ?H ?C
      = ([?V, OP_SIGN ''net++'',
          PERSIST_APP_INSTANCE CreateInstance post proposal_S2
             (''net++'', [Some ''0xA:net++'', Some ''0xB:net++'']),
          IO_SEND ?m post], Inr ())"
    using scenario_responder_run by blast
  note checked = responder_verifies_before_signing[OF run]
  have "OP_SIGN ''net++'' \<in> set [?V, OP_SIGN ''net++'',
          PERSIST_APP_INSTANCE CreateInstance post proposal_S2
             (''net++'', [Some ''0xA:net++'', Some ''0xB:net++'']),
          IO_SEND ?m post]"
    by simp
  with checked[THEN conjunct1, rule_format, of "''net++''"]
  obtain ps where "params (message ?C) = Some ps"
      "assertIsValidSignature ?E
         (getSignerAddressFromPublicIdentifier ?E (params_initiatorIdentifier ps)) ''net++''
         (map_of (customData (message ?C)) ''signature'') = None"
    by blast
  then have valid: "assertIsValidSignature ?E ''0xB'' ''net++'' (Some ''0xB:net++'') = None"
    by (auto simp add: scenario_context_def scenario_params_def scenario_externals_def
          scenario_signer_def)
  have split: "[?V, OP_SIGN ''net++'',
          PERSIST_APP_INSTANCE CreateInstance post proposal_S2
             (''net++'', [Some ''0xA:net++'', Some ''0xB:net++'']),
          IO_SEND ?m post]
       = [?V, OP_SIGN ''net++'',
          PERSIST_APP_INSTANCE CreateInstance post proposal_S2
             (''net++'', [Some ''0xA:net++'', Some ''0xB:net++''])] @ IO_SEND ?m post # []"
    by simp
  from checked[THEN conjunct2, rule_format, OF split]
  have persisted: "\<exists>ty c app cm.
      PERSIST_APP_INSTANCE ty c app cm
        \<in> set [?V, OP_SIGN ''net++'',
            PERSIST_APP_INSTANCE CreateInstance post proposal_S2
              (''net++'', [Some ''0xA:net++'', Some ''0xB:net++''])]
      \<and> persist_app_instance ?H ty c app cm = None" .
  from valid persisted show ?thesis
    by (simp add: run)
qed

text \<open>
  Claim C5. In every run of the initiator, an \<^verbatim>\<open>OP_SIGN\<close>, \<^verbatim>\<open>IO_SEND_AND_WAIT\<close> or
  \<^verbatim>\<open>PERSIST_APP_INSTANCE\<close> request comes after an \<^verbatim>\<open>OP_VALIDATE\<close> request that the host
  has answered with \<^verbatim>\<open>null\<close>; and when the host answers \<^verbatim>\<open>OP_VALIDATE\<close> with a reason, the
  run ends with that reason as its error and \<^verbatim>\<open>OP_VALIDATE\<close> is the only request of the
  run: no signature, no message and no persist. The host is one that keeps to the
  interface of the opcode (section 6 of the specification: \<^verbatim>\<open>null\<close> on accept, a
  non-empty reason on reject), so it never answers with the empty string.
\<close>

theorem initiator_validates_first:
  assumes run: "INSTALL_PROTOCOL_0 ext host ctx = (tr, out)"
      and interface: "\<And>pn mw. op_validate host pn mw \<noteq> Inr (Some [])"
  shows "(\<forall>before r after. tr = before @ r # after
              \<and> (is_OP_SIGN r \<or> is_IO_SEND_AND_WAIT r \<or> is_PERSIST_APP_INSTANCE r) \<longrightarrow>
            (\<exists>mw. OP_VALIDATE install mw \<in> set before
                 \<and> op_validate host install mw = Inr None))
       \<and> (\<forall>mw reason. OP_VALIDATE install mw \<in> set tr
              \<and> op_validate host install mw = Inr (Some reason) \<longrightarrow>
            out = Inl (Error reason) \<and> tr = [OP_VALIDATE install mw])"
proof -
  have answers: "v = None \<or> (\<exists>reason. v = Some reason \<and> reason \<noteq> [])"
    if "op_validate host pn mw = Inr v" for pn mw v
    using that interface[of pn mw] by (cases v) auto
  have first: "\<forall>before r after. tr = before @ r # after
              \<and> (is_OP_SIGN r \<or> is_IO_SEND_AND_WAIT r \<or> is_PERSIST_APP_INSTANCE r) \<longrightarrow>
            (\<exists>mw. OP_VALIDATE install mw \<in> set before
                 \<and> op_validate host install mw = Inr None)"
    using run
    by (auto simp: INSTALL_PROTOCOL_0_def Let_def Cons_eq_append_conv truthy_def
             split: option.splits sum.splits if_splits dest: answers)
  have second: "\<forall>mw reason. OP_VALIDATE install mw \<in> set tr
              \<and> op_validate host install mw = Inr (Some reason) \<longrightarrow>
            out = Inl (Error reason) \<and> tr = [OP_VALIDATE install mw]"
    using run
    by (auto simp: INSTALL_PROTOCOL_0_def Let_def truthy_def errorMessage_def
             split: option.splits sum.splits if_splits dest: answers)
  from first second show ?thesis by (rule conjI)
qed

text \<open>
  Scenario S6: the host rejects the install, and nothing but the validation is
  requested. In the run of scenario S2 the host accepts, and the request to sign comes
  after the validation that it answered with \<^verbatim>\<open>null\<close>.
\<close>

theorem initiator_validates_first_witness:
  "INSTALL_PROTOCOL_0 scenario_externals
      (scenario_host ''0xB'' (Some ''app definition not whitelisted'') [])
      (scenario_context ''net'' (scenario_params ''B'' ''A'' proposal_S2) [] held_S2)
     = ([OP_VALIDATE install (InstallMiddlewareContext (scenario_params ''B'' ''A'' proposal_S2)
           (scenario_channel held_S2) proposal_S2 initiator)],
        Inl (Error ''app definition not whitelisted''))
   \<and> fst (INSTALL_PROTOCOL_0 scenario_externals
          (scenario_host ''0xB'' None [(''signature'', ''0xA:net++'')])
          (scenario_context ''net'' (scenario_params ''B'' ''A'' proposal_S2) [] held_S2)) ! 1
     = OP_SIGN ''net++''
   \<and> (\<exists>mw. fst (INSTALL_PROTOCOL_0 scenario_externals
          (scenario_host ''0xB'' None [(''signature'', ''0xA:net++'')])
          (scenario_context ''net'' (scenario_params ''B'' ''A'' proposal_S2) [] held_S2)) ! 0
          = OP_VALIDATE install mw
        \<and> op_validate (scenario_host ''0xB'' None [(''signature'', ''0xA:net++'')]) install mw
          = Inr None)"
proof -
  let ?E = scenario_externals
  let ?ps = "scenario_params ''B'' ''A'' proposal_S2"
  let ?H = "scenario_host ''0xB'' (Some ''app definition not whitelisted'') []"
  let ?H2 = "scenario_host ''0xB'' None [(''signature'', ''0xA:net++'')]"
  let ?C = "scenario_context ''net'' ?ps [] held_S2"
  let ?mw = "InstallMiddlewareContext ?ps (scenario_channel held_S2) proposal_S2 initiator"
  let ?m = "\<lparr> processID = ''run1'', protocol = install, params = Some ?ps, to = ''A'',
             customData = [(''signature'', ''0xB:net++'')], seq = SeqNo 1 \<rparr>"
  have interface: "op_validate ?H pn mw \<noteq> Inr (Some [])" for pn mw
    by (simp add: scenario_host_def)
  have interface2: "op_validate ?H2 pn mw \<noteq> Inr (Some [])" for pn mw
    by (simp add: scenario_host_def)
  obtain tr out where run: "INSTALL_PROTOCOL_0 ?E ?H ?C = (tr, out)"
    by (cases "INSTALL_PROTOCOL_0 ?E ?H ?C")
  have asked: "OP_VALIDATE install ?mw \<in> set tr"
  proof -
    have "OP_VALIDATE install ?mw \<in> set (fst (INSTALL_PROTOCOL_0 ?E ?H ?C))"
      by (simp add: INSTALL_PROTOCOL_0_def Let_def model_defs scenario_defs)
    then show ?thesis by (simp add: run)
  qed
  have answer: "op_validate ?H install ?mw = Inr (Some ''app definition not whitelisted'')"
    by (simp add: scenario_host_def)
  have "out = Inl (Error ''app definition not whitelisted'') \<and> tr = [OP_VALIDATE install ?mw]"
    using initiator_validates_first[OF run interface, THEN conjunct2, rule_format,
            of ?mw "''app definition not whitelisted''"] asked answer
    by simp
  with run have rejected: "INSTALL_PROTOCOL_0 ?E ?H ?C
      = ([OP_VALIDATE install ?mw], Inl (Error ''app definition not whitelisted''))"
    by simp
  obtain post where run2: "INSTALL_PROTOCOL_0 ?E ?H2 ?C
      = ([OP_VALIDATE install ?mw, OP_SIGN ''net++'', IO_SEND_AND_WAIT ?m,
          PERSIST_APP_INSTANCE CreateInstance post proposal_S2
             (''net++'', [Some ''0xA:net++'', Some ''0xB:net++''])], Inr ())"
    using scenario_initiator_run by blast
  have split: "[OP_VALIDATE install ?mw, OP_SIGN ''net++'', IO_SEND_AND_WAIT ?m,
          PERSIST_APP_INSTANCE CreateInstance post proposal_S2
             (''net++'', [Some ''0xA:net++'', Some ''0xB:net++''])]
      = [OP_VALIDATE install ?mw] @ OP_SIGN ''net++'' # [IO_SEND_AND_WAIT ?m,
          PERSIST_APP_INSTANCE CreateInstance post proposal_S2
             (''net++'', [Some ''0xA:net++'', Some ''0xB:net++''])]"
    by simp
  have "\<exists>mw. OP_VALIDATE install mw \<in> set [OP_VALIDATE install ?mw]
            \<and> op_validate ?H2 install mw = Inr None"
    using initiator_validates_first[OF run2 interface2, THEN conjunct1, rule_format,
            of "[OP_VALIDATE install ?mw]" "OP_SIGN ''net++''"] split
    by simp
  then have accepted: "op_validate ?H2 install ?mw = Inr None"
    by simp
  from rejected accepted show ?thesis
    by (simp add: run2)
qed

text \<open>
  Claim C6. When the reply to the initiator carries a signature whose signer, recovered
  over the hash of the free-balance commitment the initiator has computed, is not the
  signer address of \<^verbatim>\<open>responderIdentifier\<close>, the run fails with
  \<open>InvalidCounterpartySignature\<close>, requests no persist, and leaves the stored channel as
  it was. \<^verbatim>\<open>assertIsValidSignature\<close> is the model of sections 4.4 and 7.
\<close>

theorem bad_reply_signature_aborts:
  assumes model: "assertIsValidSignature ext = assertIsValidSignature_model recover"
      and run: "INSTALL_PROTOCOL_0 ext host ctx = (tr, out)"
      and sent: "IO_SEND_AND_WAIT m \<in> set tr"
      and reply: "io_send_and_wait host m = Inr reply"
      and sig: "map_of (customData (data reply)) ''signature'' = Some s"
      and pre: "preProtocolStateChannel ctx = Some pre"
      and ps: "params (message ctx) = Some ps"
      and post: "computeInstallStateChannelTransition ext pre (params_proposal ps) = Inr post"
      and bad: "recover (hashToSign ext (getSetStateCommitment ext (network ctx) (freeBalance post))) s
                  \<noteq> getSignerAddressFromPublicIdentifier ext (params_responderIdentifier ps)"
  shows "out = Inl InvalidCounterpartySignature
       \<and> (\<forall>r \<in> set tr. \<not> is_PERSIST_APP_INSTANCE r)
       \<and> storedChannel host tr pre = pre"
  using run sent reply sig pre ps post bad
  by (auto simp: INSTALL_PROTOCOL_0_def Let_def model assertIsValidSignature_model_def
                 storedChannel_def
           split: option.splits sum.splits if_splits)

text \<open>Scenario S5: the reply carries a signature of \<open>0xA\<close> over another hash.\<close>

theorem bad_reply_signature_aborts_witness:
  "snd (INSTALL_PROTOCOL_0 scenario_externals
          (scenario_host ''0xB'' None [(''signature'', ''0xA:other'')])
          (scenario_context ''net'' (scenario_params ''B'' ''A'' proposal_S2) [] held_S2))
     = Inl InvalidCounterpartySignature
   \<and> length (fst (INSTALL_PROTOCOL_0 scenario_externals
          (scenario_host ''0xB'' None [(''signature'', ''0xA:other'')])
          (scenario_context ''net'' (scenario_params ''B'' ''A'' proposal_S2) [] held_S2))) = 3
   \<and> storedChannel (scenario_host ''0xB'' None [(''signature'', ''0xA:other'')])
        (fst (INSTALL_PROTOCOL_0 scenario_externals
          (scenario_host ''0xB'' None [(''signature'', ''0xA:other'')])
          (scenario_context ''net'' (scenario_params ''B'' ''A'' proposal_S2) [] held_S2)))
        (scenario_channel held_S2)
     = scenario_channel held_S2"
proof -
  let ?E = scenario_externals
  let ?ps = "scenario_params ''B'' ''A'' proposal_S2"
  let ?H = "scenario_host ''0xB'' None [(''signature'', ''0xA:other'')]"
  let ?C = "scenario_context ''net'' ?ps [] held_S2"
  let ?m = "\<lparr> processID = ''run1'', protocol = install, params = Some ?ps, to = ''A'',
             customData = [(''signature'', ''0xB:net++'')], seq = SeqNo 1 \<rparr>"
  let ?reply = "\<lparr> data = \<lparr> processID = ''run1'', protocol = install, params = None, to = ''A'',
                  customData = [(''signature'', ''0xA:other'')], seq = UNASSIGNED_SEQ_NO \<rparr> \<rparr>"
  have model: "assertIsValidSignature ?E = assertIsValidSignature_model scenario_recover"
    by (simp add: scenario_externals_def)
  obtain tr out where run: "INSTALL_PROTOCOL_0 ?E ?H ?C = (tr, out)"
    by (cases "INSTALL_PROTOCOL_0 ?E ?H ?C")
  have tr: "fst (INSTALL_PROTOCOL_0 ?E ?H ?C)
      = [OP_VALIDATE install (InstallMiddlewareContext ?ps (scenario_channel held_S2)
           proposal_S2 initiator), OP_SIGN ''net++'', IO_SEND_AND_WAIT ?m]"
    by (simp add: INSTALL_PROTOCOL_0_def Let_def model_defs scenario_defs)
  then have sent: "IO_SEND_AND_WAIT ?m \<in> set tr"
    by (simp add: run)
  have reply: "io_send_and_wait ?H ?m = Inr ?reply"
    by (simp add: scenario_host_def)
  have sig: "map_of (customData (data ?reply)) ''signature'' = Some ''0xA:other''"
    by simp
  have pre: "preProtocolStateChannel ?C = Some (scenario_channel held_S2)"
   and ps: "params (message ?C) = Some ?ps"
    by (simp_all add: scenario_context_def)
  obtain post where post: "computeInstallStateChannelTransition ?E (scenario_channel held_S2)
                              (params_proposal ?ps) = Inr post"
    using scenario_transition_S2 by (auto simp add: scenario_params_def)
  have bad: "scenario_recover
               (hashToSign ?E (getSetStateCommitment ?E (network ?C) (freeBalance post)))
               ''0xA:other''
             \<noteq> getSignerAddressFromPublicIdentifier ?E (params_responderIdentifier ?ps)"
    by (simp add: scenario_defs)
  note aborted = bad_reply_signature_aborts[OF model run sent reply sig pre ps post bad]
  from aborted tr run show ?thesis
    by simp
qed

text \<open>
  Claim C7. With the preliminary check of section 4.3, both roles check the two deposits
  before anything else: when the initiator of the app holds less than its deposit of its
  token the run ends at once, with no request, with \<open>InsufficientFunds\<close> for that party,
  token, held amount and deposit; when the initiator holds enough and the responder does
  not, it ends at once with the error for the responder; and a run that has yielded any
  request has passed both checks.
\<close>

theorem sufficiency_checked_first:
  assumes model: "assertSufficientFundsWithinFreeBalance ext
                    = assertSufficientFundsWithinFreeBalance_model
                        (getSignerAddressFromPublicIdentifier ext)"
      and pre: "preProtocolStateChannel ctx = Some pre"
      and ps: "params (message ctx) = Some ps"
      and p: "p = params_proposal ps"
      and hi: "haveI = balances (freeBalance pre)
                         (getAddressFromAssetId ext (initiatorDepositAssetId p))
                         (getSignerAddressFromPublicIdentifier ext (initiatorIdentifier p))"
      and hr: "haveR = balances (freeBalance pre)
                         (getAddressFromAssetId ext (responderDepositAssetId p))
                         (getSignerAddressFromPublicIdentifier ext (responderIdentifier p))"
      and role: "run = INSTALL_PROTOCOL_0 ext host ctx \<or> run = INSTALL_PROTOCOL_1 ext host ctx"
  shows "(haveI < initiatorDeposit p \<longrightarrow>
            run = ([], Inl (InsufficientFunds (initiatorIdentifier p)
                             (getAddressFromAssetId ext (initiatorDepositAssetId p))
                             haveI (initiatorDeposit p))))
       \<and> (initiatorDeposit p \<le> haveI \<and> haveR < responderDeposit p \<longrightarrow>
            run = ([], Inl (InsufficientFunds (responderIdentifier p)
                             (getAddressFromAssetId ext (responderDepositAssetId p))
                             haveR (responderDeposit p))))
       \<and> (fst run \<noteq> [] \<longrightarrow> initiatorDeposit p \<le> haveI \<and> responderDeposit p \<le> haveR)"
proof -
  let ?errI = "InsufficientFunds (initiatorIdentifier p)
                 (getAddressFromAssetId ext (initiatorDepositAssetId p)) haveI (initiatorDeposit p)"
  let ?errR = "InsufficientFunds (responderIdentifier p)
                 (getAddressFromAssetId ext (responderDepositAssetId p)) haveR (responderDeposit p)"
  have i0: "INSTALL_PROTOCOL_0 ext host ctx = ([], Inl ?errI)" if "haveI < initiatorDeposit p"
    using that unfolding hi hr p
    by (simp add: INSTALL_PROTOCOL_0_def Let_def model pre ps
          assertSufficientFundsWithinFreeBalance_model_def)
  have i1: "INSTALL_PROTOCOL_1 ext host ctx = ([], Inl ?errI)" if "haveI < initiatorDeposit p"
    using that unfolding hi hr p
    by (simp add: INSTALL_PROTOCOL_1_def Let_def model pre ps
          assertSufficientFundsWithinFreeBalance_model_def)
  have r0: "INSTALL_PROTOCOL_0 ext host ctx = ([], Inl ?errR)"
    if "initiatorDeposit p \<le> haveI" "haveR < responderDeposit p"
    using that unfolding hi hr p
    by (simp add: INSTALL_PROTOCOL_0_def Let_def model pre ps
          assertSufficientFundsWithinFreeBalance_model_def)
  have r1: "INSTALL_PROTOCOL_1 ext host ctx = ([], Inl ?errR)"
    if "initiatorDeposit p \<le> haveI" "haveR < responderDeposit p"
    using that unfolding hi hr p
    by (simp add: INSTALL_PROTOCOL_1_def Let_def model pre ps
          assertSufficientFundsWithinFreeBalance_model_def)
  have a: "run = ([], Inl ?errI)" if "haveI < initiatorDeposit p"
    using role i0[OF that] i1[OF that] by blast
  have b: "run = ([], Inl ?errR)" if "initiatorDeposit p \<le> haveI" "haveR < responderDeposit p"
    using role r0[OF that] r1[OF that] by blast
  have c: "initiatorDeposit p \<le> haveI \<and> responderDeposit p \<le> haveR" if "fst run \<noteq> []"
  proof (rule ccontr)
    assume "\<not> (initiatorDeposit p \<le> haveI \<and> responderDeposit p \<le> haveR)"
    then consider "haveI < initiatorDeposit p"
      | "initiatorDeposit p \<le> haveI" "haveR < responderDeposit p"
      by linarith
    then have "fst run = []"
      by cases (simp_all add: a b)
    with that show False by simp
  qed
  from a b c show ?thesis by blast
qed

text \<open>
  Scenario S4: \<open>0xA\<close> holds 10 \<open>ETH\<close> and is to deposit 30. Neither role yields a request.
\<close>

theorem sufficiency_checked_first_witness:
  "INSTALL_PROTOCOL_0 scenario_externals (scenario_host ''0xA'' None [])
      (scenario_context ''net'' (scenario_params ''A'' ''B'' proposal_S2) [] held_S4)
     = ([], Inl (InsufficientFunds ''A'' ''ETH'' 10 30))
   \<and> INSTALL_PROTOCOL_1 scenario_externals (scenario_host ''0xB'' None [])
      (scenario_context ''net'' (scenario_params ''A'' ''B'' proposal_S2)
         [(''signature'', ''0xA:net++'')] held_S4)
     = ([], Inl (InsufficientFunds ''A'' ''ETH'' 10 30))"
proof -
  let ?E = scenario_externals
  let ?ps = "scenario_params ''A'' ''B'' proposal_S2"
  let ?C0 = "scenario_context ''net'' ?ps [] held_S4"
  let ?C1 = "scenario_context ''net'' ?ps [(''signature'', ''0xA:net++'')] held_S4"
  have model: "assertSufficientFundsWithinFreeBalance ?E
                 = assertSufficientFundsWithinFreeBalance_model
                     (getSignerAddressFromPublicIdentifier ?E)"
    by (simp add: scenario_externals_def)
  have pre0: "preProtocolStateChannel ?C0 = Some (scenario_channel held_S4)"
   and pre1: "preProtocolStateChannel ?C1 = Some (scenario_channel held_S4)"
   and ps0: "params (message ?C0) = Some ?ps"
   and ps1: "params (message ?C1) = Some ?ps"
    by (simp_all add: scenario_context_def)
  have p: "proposal_S2 = params_proposal ?ps"
    by (simp add: scenario_params_def)
  have hi: "10 = balances (freeBalance (scenario_channel held_S4))
                   (getAddressFromAssetId ?E (initiatorDepositAssetId proposal_S2))
                   (getSignerAddressFromPublicIdentifier ?E (initiatorIdentifier proposal_S2))"
   and hr: "100 = balances (freeBalance (scenario_channel held_S4))
                   (getAddressFromAssetId ?E (responderDepositAssetId proposal_S2))
                   (getSignerAddressFromPublicIdentifier ?E (responderIdentifier proposal_S2))"
    by (simp_all add: scenario_defs)
  have "INSTALL_PROTOCOL_0 ?E (scenario_host ''0xA'' None []) ?C0
          = ([], Inl (InsufficientFunds ''A'' ''ETH'' 10 30))"
    using sufficiency_checked_first[OF model pre0 ps0 p hi hr disjI1[OF refl],
            of "scenario_host ''0xA'' None []"]
    by (simp add: scenario_externals_def proposal_S2_def)
  moreover have "INSTALL_PROTOCOL_1 ?E (scenario_host ''0xB'' None []) ?C1
          = ([], Inl (InsufficientFunds ''A'' ''ETH'' 10 30))"
    using sufficiency_checked_first[OF model pre1 ps1 p hi hr disjI2[OF refl],
            of "scenario_host ''0xB'' None []"]
    by (simp add: scenario_externals_def proposal_S2_def)
  ultimately show ?thesis by (rule conjI)
qed



text \<open>
  Claim C10. The message that the responder sends has no \<^verbatim>\<open>params\<close>: it is the process
  id of the incoming message, the protocol \<open>install\<close>, the protocol initiator as
  recipient, a \<^verbatim>\<open>customData\<close> that holds the responder's signature and nothing else, and
  the sequence number \<^verbatim>\<open>UNASSIGNED_SEQ_NO\<close>. And the initiator reads nothing of the reply
  but \<^verbatim>\<open>customData.signature\<close>: two hosts that differ only in replies with the same
  signature give the same run.
\<close>

theorem responder_reply_has_no_params:
  "(\<forall>m ch. IO_SEND m ch \<in> set (fst (INSTALL_PROTOCOL_1 ext host ctx)) \<longrightarrow>
      (\<exists>ps h mine.
          params (message ctx) = Some ps
        \<and> OP_SIGN h \<in> set (fst (INSTALL_PROTOCOL_1 ext host ctx)) \<and> op_sign host h = Inr mine
        \<and> m = \<lparr> processID = processID (message ctx), protocol = install, params = None,
                to = params_initiatorIdentifier ps,
                customData = [(''signature'', mine)], seq = UNASSIGNED_SEQ_NO \<rparr>))
   \<and> (\<forall>wait'.
        (\<forall>m. map_sum id (\<lambda>reply. map_of (customData (data reply)) ''signature'') (wait' m)
            = map_sum id (\<lambda>reply. map_of (customData (data reply)) ''signature'')
                (io_send_and_wait host m)) \<longrightarrow>
        INSTALL_PROTOCOL_0 ext (host\<lparr>io_send_and_wait := wait'\<rparr>) ctx
          = INSTALL_PROTOCOL_0 ext host ctx)"
proof (intro conjI allI impI)
  fix m ch
  assume sent: "IO_SEND m ch \<in> set (fst (INSTALL_PROTOCOL_1 ext host ctx))"
  obtain tr out where run: "INSTALL_PROTOCOL_1 ext host ctx = (tr, out)"
    by (cases "INSTALL_PROTOCOL_1 ext host ctx")
  from sent have "IO_SEND m ch \<in> set tr"
    by (simp add: run)
  with run have "\<exists>ps h mine.
          params (message ctx) = Some ps
        \<and> OP_SIGN h \<in> set tr \<and> op_sign host h = Inr mine
        \<and> m = \<lparr> processID = processID (message ctx), protocol = install, params = None,
                to = params_initiatorIdentifier ps,
                customData = [(''signature'', mine)], seq = UNASSIGNED_SEQ_NO \<rparr>"
    by (auto simp: INSTALL_PROTOCOL_1_def Let_def object_literal_def
             split: option.splits sum.splits if_splits)
  then show "\<exists>ps h mine.
          params (message ctx) = Some ps
        \<and> OP_SIGN h \<in> set (fst (INSTALL_PROTOCOL_1 ext host ctx)) \<and> op_sign host h = Inr mine
        \<and> m = \<lparr> processID = processID (message ctx), protocol = install, params = None,
                to = params_initiatorIdentifier ps,
                customData = [(''signature'', mine)], seq = UNASSIGNED_SEQ_NO \<rparr>"
    by (simp add: run)
next
  fix wait' :: "ProtocolMessageData \<Rightarrow> error + ProtocolMessage"
  assume same: "\<forall>m. map_sum id (\<lambda>reply. map_of (customData (data reply)) ''signature'') (wait' m)
                  = map_sum id (\<lambda>reply. map_of (customData (data reply)) ''signature'')
                      (io_send_and_wait host m)"
  have sides: "isl (wait' m) = isl (io_send_and_wait host m)" for m
    using same[rule_format, of m]
    by (cases "wait' m"; cases "io_send_and_wait host m"; simp)
  have failed: "projl (wait' m) = projl (io_send_and_wait host m)"
    if "isl (io_send_and_wait host m)" for m
    using same[rule_format, of m] that
    by (cases "wait' m"; cases "io_send_and_wait host m"; simp)
  have replied: "map_of (customData (data (projr (wait' m)))) ''signature''
                   = map_of (customData (data (projr (io_send_and_wait host m)))) ''signature''"
    if "\<not> isl (io_send_and_wait host m)" for m
    using same[rule_format, of m] that
    by (cases "wait' m"; cases "io_send_and_wait host m"; simp)
  show "INSTALL_PROTOCOL_0 ext (host\<lparr>io_send_and_wait := wait'\<rparr>) ctx
          = INSTALL_PROTOCOL_0 ext host ctx"
    unfolding INSTALL_PROTOCOL_0_def Let_def
    by (simp add: sum.case_eq_if sides failed replied split del: if_split
             cong: if_cong option.case_cong)
qed

text \<open>
  The reply of the responder \<open>A\<close> of scenario S2, and an initiator that gets the same
  signature in a reply that differs in every other field.
\<close>

theorem responder_reply_has_no_params_witness:
  "(\<exists>ch. IO_SEND \<lparr> processID = ''run1'', protocol = install, params = None, to = ''B'',
                    customData = [(''signature'', ''0xA:net++'')], seq = UNASSIGNED_SEQ_NO \<rparr> ch
        \<in> set (fst (INSTALL_PROTOCOL_1 scenario_externals (scenario_host ''0xA'' None [])
                       (scenario_context ''net'' (scenario_params ''B'' ''A'' proposal_S2)
                          [(''signature'', ''0xB:net++'')] held_S2))))
   \<and> INSTALL_PROTOCOL_0 scenario_externals
        ((scenario_host ''0xB'' None [(''signature'', ''0xA:net++'')])
           \<lparr> io_send_and_wait :=
               (\<lambda>m. Inr \<lparr> data = \<lparr> processID = ''other'', protocol = propose,
                                     params = Some (scenario_params ''B'' ''A'' proposal_S2),
                                     to = ''Z'',
                                     customData = [(''note'', ''x''), (''signature'', ''0xA:net++'')],
                                     seq = SeqNo 7 \<rparr> \<rparr>) \<rparr>)
        (scenario_context ''net'' (scenario_params ''B'' ''A'' proposal_S2) [] held_S2)
     = INSTALL_PROTOCOL_0 scenario_externals
        (scenario_host ''0xB'' None [(''signature'', ''0xA:net++'')])
        (scenario_context ''net'' (scenario_params ''B'' ''A'' proposal_S2) [] held_S2)"
proof -
  let ?E = scenario_externals
  let ?ps = "scenario_params ''B'' ''A'' proposal_S2"
  let ?H0 = "scenario_host ''0xB'' None [(''signature'', ''0xA:net++'')]"
  let ?C0 = "scenario_context ''net'' ?ps [] held_S2"
  let ?H1 = "scenario_host ''0xA'' None []"
  let ?C1 = "scenario_context ''net'' ?ps [(''signature'', ''0xB:net++'')] held_S2"
  let ?w = "\<lambda>m :: ProtocolMessageData.
              (Inr \<lparr> data = \<lparr> processID = ''other'', protocol = propose, params = Some ?ps,
                               to = ''Z'',
                               customData = [(''note'', ''x''), (''signature'', ''0xA:net++'')],
                               seq = SeqNo 7 \<rparr> \<rparr>) :: error + ProtocolMessage"
  note shape = responder_reply_has_no_params[of ?E ?H1 ?C1]
  note reads = responder_reply_has_no_params[of ?E ?H0 ?C0]
  obtain m ch where sent: "IO_SEND m ch \<in> set (fst (INSTALL_PROTOCOL_1 ?E ?H1 ?C1))"
    using scenario_responder_run by force
  from shape[THEN conjunct1, rule_format, OF sent]
  obtain ps h mine where
      "params (message ?C1) = Some ps" "op_sign ?H1 h = Inr mine"
      "OP_SIGN h \<in> set (fst (INSTALL_PROTOCOL_1 ?E ?H1 ?C1))"
      "m = \<lparr> processID = processID (message ?C1), protocol = install, params = None,
             to = params_initiatorIdentifier ps,
             customData = [(''signature'', mine)], seq = UNASSIGNED_SEQ_NO \<rparr>"
    by blast
  moreover have "h = ''net++''" if "OP_SIGN h \<in> set (fst (INSTALL_PROTOCOL_1 ?E ?H1 ?C1))" for h
    using that scenario_responder_run by force
  ultimately have m: "m = \<lparr> processID = ''run1'', protocol = install, params = None, to = ''B'',
                           customData = [(''signature'', ''0xA:net++'')], seq = UNASSIGNED_SEQ_NO \<rparr>"
    by (auto simp add: scenario_context_def scenario_params_def scenario_host_def)
  have same: "map_sum id (\<lambda>reply. map_of (customData (data reply)) ''signature'') (?w m)
                = map_sum id (\<lambda>reply. map_of (customData (data reply)) ''signature'')
                    (io_send_and_wait ?H0 m)" for m
    by (simp add: scenario_host_def)
  from reads[THEN conjunct2, rule_format, of ?w, OF same] sent m
  show ?thesis by blast
qed

end
